theory Spec2Isabelle
  imports Complex_Main
begin

section \<open>Values, exceptions and the text a tool returns\<close>

text \<open>
  Tool arguments arrive as a Python dict of JSON values. The tool schemas of
  \<^verbatim>\<open>list_tools\<close> declare only string and integer parameters, so an argument
  value is modelled as one of the scalars below; \<open>ANone\<close> is Python's \<^verbatim>\<open>None\<close>,
  which is also what \<^verbatim>\<open>arguments.get(k)\<close> gives for an absent key. Array-,
  object- and float-valued arguments are outside the model.
\<close>

datatype arg = ANone | ABool bool | AInt int | AStr string

text \<open>
  The value \<^verbatim>\<open>json.loads\<close> hands back, and the value \<^verbatim>\<open>json.dumps\<close> is given.
  A dict is an association list read with \<open>map_of\<close>. Floats are not modelled.
\<close>

datatype json =
    JNull
  | JBool bool
  | JInt int
  | JStr string
  | JList "json list"
  | JDict "(string \<times> json) list"

text \<open>
  A raised exception. The constructor tells its class and carries the text
  \<^verbatim>\<open>str(e)\<close> returns. \<open>BackendError\<close> stands for whatever of class
  \<^verbatim>\<open>Exception\<close> the libraries (\<^verbatim>\<open>splunklib\<close>, \<^verbatim>\<open>json\<close>) raise; \<open>TypeError\<close>,
  \<open>AttributeError\<close> and \<open>KeyError\<close> are raised by the interpreter on the values
  of this model (the wording of their messages is that of CPython 3.10 and
  changes between versions). The last three are the classes that derive from
  \<^verbatim>\<open>BaseException\<close> and not from \<^verbatim>\<open>Exception\<close>: \<^verbatim>\<open>asyncio.CancelledError\<close>
  (raised inside a coroutine at an \<^verbatim>\<open>await\<close> when its task is cancelled),
  \<^verbatim>\<open>KeyboardInterrupt\<close> and \<^verbatim>\<open>SystemExit\<close>.
\<close>

datatype exn =
    BackendError string
  | TypeError string
  | AttributeError string
  | KeyError string
  | CancelledError string
  | KeyboardInterrupt string
  | SystemExit string

fun str_exn :: "exn \<Rightarrow> string" where
  "str_exn (BackendError m) = m"
| "str_exn (TypeError m) = m"
| "str_exn (AttributeError m) = m"
| "str_exn (KeyError m) = m"
| "str_exn (CancelledError m) = m"
| "str_exn (KeyboardInterrupt m) = m"
| "str_exn (SystemExit m) = m"

text \<open>\<^verbatim>\<open>isinstance(e, Exception)\<close>: whether a clause \<^verbatim>\<open>except Exception\<close> catches \<open>e\<close>.\<close>

fun is_Exception :: "exn \<Rightarrow> bool" where
  "is_Exception (CancelledError m) = False"
| "is_Exception (KeyboardInterrupt m) = False"
| "is_Exception (SystemExit m) = False"
| "is_Exception e = True"

text \<open>
  The \<^verbatim>\<open>str\<close> a tool returns is either a literal/f-string (\<open>Plain\<close>) or the
  serialisation of a value \<open>v\<close>: \<open>JsonDumps None v\<close> is \<^verbatim>\<open>json.dumps(v)\<close> and
  \<open>JsonDumps (Some 2) v\<close> is \<^verbatim>\<open>json.dumps(v, indent=2)\<close>. The serialiser itself
  is library code and is not unfolded.
\<close>

datatype out_text = Plain string | JsonDumps "nat option" json

subsection \<open>Formatting a value inside an f-string\<close>

definition digit_char :: "nat \<Rightarrow> char" where
  "digit_char d = ''0123456789'' ! (d mod 10)"

fun str_nat :: "nat \<Rightarrow> string" where
  "str_nat n = (if n < 10 then [digit_char n] else str_nat (n div 10) @ [digit_char n])"

definition str_int :: "int \<Rightarrow> string" where
  "str_int i = (if i < 0 then CHR ''-'' # str_nat (nat (- i)) else str_nat (nat i))"

fun py_str :: "arg \<Rightarrow> string" where
  "py_str ANone = ''None''"
| "py_str (ABool b) = (if b then ''True'' else ''False'')"
| "py_str (AInt i) = str_int i"
| "py_str (AStr s) = s"

fun json_of_arg :: "arg \<Rightarrow> json" where
  "json_of_arg ANone = JNull"
| "json_of_arg (ABool b) = JBool b"
| "json_of_arg (AInt i) = JInt i"
| "json_of_arg (AStr s) = JStr s"

definition quoted :: "string \<Rightarrow> string" where
  "quoted s = CHR 0x27 # s @ [CHR 0x27]"

subsection \<open>The Python operators \<^verbatim>\<open>search_splunk\<close> applies to the parsed payload\<close>

fun type_name :: "json \<Rightarrow> string" where
  "type_name JNull = ''NoneType''"
| "type_name (JBool _) = ''bool''"
| "type_name (JInt _) = ''int''"
| "type_name (JStr _) = ''str''"
| "type_name (JList _) = ''list''"
| "type_name (JDict _) = ''dict''"

fun truthy :: "json \<Rightarrow> bool" where
  "truthy JNull = False"
| "truthy (JBool b) = b"
| "truthy (JInt i) = (i \<noteq> 0)"
| "truthy (JStr s) = (s \<noteq> [])"
| "truthy (JList xs) = (xs \<noteq> [])"
| "truthy (JDict kvs) = (kvs \<noteq> [])"

fun is_substring :: "string \<Rightarrow> string \<Rightarrow> bool" where
  "is_substring p [] = (p = [])"
| "is_substring p (c # cs) = (take (length p) (c # cs) = p \<or> is_substring p cs)"

text \<open>\<^verbatim>\<open>key in v\<close> for a string \<open>key\<close>.\<close>

fun py_contains :: "string \<Rightarrow> json \<Rightarrow> exn + bool" where
  "py_contains k (JDict kvs) = Inr (map_of kvs k \<noteq> None)"
| "py_contains k (JList xs) = Inr (JStr k \<in> set xs)"
| "py_contains k (JStr s) = Inr (is_substring k s)"
| "py_contains k v = Inl (TypeError (''argument of type '' @ quoted (type_name v) @ '' is not iterable''))"

text \<open>\<^verbatim>\<open>v[key]\<close> for a string \<open>key\<close> that \<^verbatim>\<open>key in v\<close> has found.\<close>

fun py_getitem :: "json \<Rightarrow> string \<Rightarrow> exn + json" where
  "py_getitem (JDict kvs) k =
     (case map_of kvs k of
        Some v \<Rightarrow> Inr v
      | None \<Rightarrow> Inl (KeyError (quoted k)))"
| "py_getitem (JList xs) k = Inl (TypeError ''list indices must be integers or slices, not str'')"
| "py_getitem (JStr s) k = Inl (TypeError ''string indices must be integers'')"
| "py_getitem v k = Inl (TypeError (quoted (type_name v) @ '' object is not subscriptable''))"

fun py_len :: "json \<Rightarrow> exn + nat" where
  "py_len (JList xs) = Inr (length xs)"
| "py_len (JStr s) = Inr (length s)"
| "py_len (JDict kvs) = Inr (length (remdups (map fst kvs)))"
| "py_len v = Inl (TypeError (''object of type '' @ quoted (type_name v) @ '' has no len()''))"

text \<open>\<^verbatim>\<open>v[:20]\<close>.\<close>

fun py_slice20 :: "json \<Rightarrow> exn + json" where
  "py_slice20 (JList xs) = Inr (JList (take 20 xs))"
| "py_slice20 (JStr s) = Inr (JStr (take 20 s))"
| "py_slice20 (JDict kvs) = Inl (TypeError (''unhashable type: '' @ quoted ''slice''))"
| "py_slice20 v = Inl (TypeError (quoted (type_name v) @ '' object is not subscriptable''))"

section \<open>The backend, seen through its interface\<close>

text \<open>
  The search backend is an external collaborator. A \<open>job\<close> answers the
  \<open>k\<close>-th call of \<^verbatim>\<open>job.is_done()\<close> (counted from 0) and the call
  \<^verbatim>\<open>job.results(output_mode='json')\<close>; the stream it returns answers
  \<^verbatim>\<open>read()\<close>. Each answer is a value or a raised exception.
\<close>

record result_stream =
  read :: "exn + string"

record job =
  is_done :: "nat \<Rightarrow> exn + bool"
  results :: "exn + result_stream"

record service =
  jobs_create :: "arg \<Rightarrow> arg \<Rightarrow> arg \<Rightarrow> exn + job"

text \<open>
  \<open>client_connect k\<close> is the outcome of the \<open>k\<close>-th evaluation of
  \<^verbatim>\<open>client.connect(host=..., port=int(...), ...)\<close> in \<^verbatim>\<open>connect_to_splunk\<close>,
  the reading of the environment variables included; \<open>json_loads\<close> is
  \<^verbatim>\<open>json.loads\<close>. \<open>asyncio_sleep k\<close> is the outcome of the
  \<^verbatim>\<open>await asyncio.sleep(0.5)\<close> that follows the \<open>k\<close>-th poll of a wait loop: the
  coroutine is resumed, or an exception is raised into it there (the task was
  cancelled, the process interrupted). An exception of any class can be the
  outcome of any of these calls.
\<close>

record env =
  client_connect :: "nat \<Rightarrow> exn + service"
  json_loads :: "string \<Rightarrow> exn + json"
  asyncio_sleep :: "nat \<Rightarrow> exn + unit"

text \<open>
  What the server does to the outside, in order: a connection attempt, a job
  submission \<^verbatim>\<open>jobs.create(query, earliest_time=..., latest_time=...,
  output_mode="json")\<close>, a poll, a suspension \<^verbatim>\<open>asyncio.sleep(d)\<close>, the fetch of
  the result stream and its read.
\<close>

datatype event =
    EvConnect
  | EvCreate arg arg arg
  | EvIsDone
  | EvSleep rat
  | EvResults
  | EvRead

text \<open>
  \<^verbatim>\<open>SplunkMCPServer\<close>: the field \<open>splunk_service\<close> of the class, with the
  number of connection attempts made so far and the trace of events.
\<close>

record server =
  splunk_service :: "service option"
  connects :: nat
  trace :: "event list"

section \<open>\<^verbatim>\<open>search_splunk\<close>\<close>

text \<open>
  The loop \<^verbatim>\<open>while not job.is_done(): await asyncio.sleep(0.5)\<close>. It returns
  whether a poll or a sleep raised, with the trace; \<open>None\<close> is the loop that
  never ends.
\<close>

partial_function (option) wait_loop ::
  "env \<Rightarrow> job \<Rightarrow> nat \<Rightarrow> event list \<Rightarrow> ((exn + unit) \<times> event list) option" where
  "wait_loop en j k tr =
     (case is_done j k of
        Inl e \<Rightarrow> Some (Inl e, tr @ [EvIsDone])
      | Inr d \<Rightarrow>
          if d then Some (Inr (), tr @ [EvIsDone])
          else
            (case asyncio_sleep en k of
               Inl e \<Rightarrow> Some (Inl e, tr @ [EvIsDone, EvSleep (1 / 2)])
             | Inr u \<Rightarrow> wait_loop en j (Suc k) (tr @ [EvIsDone, EvSleep (1 / 2)])))"

declare wait_loop.simps [code]

text \<open>
  \<^verbatim>\<open>result_stream = job.results(output_mode='json')\<close> and
  \<^verbatim>\<open>results_data = json.loads(result_stream.read())\<close>.
\<close>

definition fetch_results :: "env \<Rightarrow> job \<Rightarrow> event list \<Rightarrow> (exn + json) \<times> event list" where
  "fetch_results en j tr =
     (case results j of
        Inl e \<Rightarrow> (Inl e, tr @ [EvResults])
      | Inr rs \<Rightarrow>
          (case read rs of
             Inl e \<Rightarrow> (Inl e, tr @ [EvResults, EvRead])
           | Inr raw \<Rightarrow> (json_loads en raw, tr @ [EvResults, EvRead])))"

definition no_results_envelope :: "arg \<Rightarrow> out_text" where
  "no_results_envelope query =
     JsonDumps None (JDict
       [(''query'', json_of_arg query),
        (''event_count'', JInt 0),
        (''message'', JStr ''No results found'')])"

text \<open>The \<^verbatim>\<open># Format results\<close> part: the \<^verbatim>\<open>if\<close> and its two \<^verbatim>\<open>return\<close>s.\<close>

definition format_results :: "arg \<Rightarrow> arg \<Rightarrow> arg \<Rightarrow> json \<Rightarrow> exn + out_text" where
  "format_results query earliest_time latest_time results_data =
     (case py_contains ''results'' results_data of
        Inl e \<Rightarrow> Inl e
      | Inr False \<Rightarrow> Inr (no_results_envelope query)
      | Inr True \<Rightarrow>
          (case py_getitem results_data ''results'' of
             Inl e \<Rightarrow> Inl e
           | Inr rows \<Rightarrow>
               if truthy rows then
                 (case py_len rows of
                    Inl e \<Rightarrow> Inl e
                  | Inr n \<Rightarrow>
                      (case py_slice20 rows of
                         Inl e \<Rightarrow> Inl e
                       | Inr shown \<Rightarrow>
                           Inr (JsonDumps (Some 2) (JDict
                             [(''query'', json_of_arg query),
                              (''event_count'', JInt (int n)),
                              (''time_range'', JStr (py_str earliest_time @ '' to '' @ py_str latest_time)),
                              (''results'', shown)]))))
               else Inr (no_results_envelope query)))"

text \<open>The body of the \<^verbatim>\<open>try\<close> of \<^verbatim>\<open>search_splunk\<close>; \<open>Inl e\<close> is \<open>e\<close> raised.\<close>

definition search_body ::
  "env \<Rightarrow> server \<Rightarrow> arg \<Rightarrow> arg \<Rightarrow> arg \<Rightarrow> ((exn + out_text) \<times> server) option" where
  "search_body en st query earliest_time latest_time =
     (case splunk_service st of
        None \<Rightarrow>
          Some (Inl (AttributeError (quoted ''NoneType'' @ '' object has no attribute '' @ quoted ''jobs'')), st)
      | Some svc \<Rightarrow>
          (let tr = trace st @ [EvCreate query earliest_time latest_time] in
           case jobs_create svc query earliest_time latest_time of
             Inl e \<Rightarrow> Some (Inl e, st\<lparr>trace := tr\<rparr>)
           | Inr j \<Rightarrow>
               (case wait_loop en j 0 tr of
                  None \<Rightarrow> None
                | Some (Inl e, tr1) \<Rightarrow> Some (Inl e, st\<lparr>trace := tr1\<rparr>)
                | Some (Inr u, tr1) \<Rightarrow>
                    (case fetch_results en j tr1 of
                       (Inl e, tr2) \<Rightarrow> Some (Inl e, st\<lparr>trace := tr2\<rparr>)
                     | (Inr results_data, tr2) \<Rightarrow>
                         Some (format_results query earliest_time latest_time results_data,
                               st\<lparr>trace := tr2\<rparr>)))))"

text \<open>
  \<^verbatim>\<open>search_splunk\<close>: the body under \<^verbatim>\<open>except Exception as e: return
  json.dumps({"error": str(e)})\<close>. The clause catches what \<open>is_Exception\<close>
  holds of; any other exception leaves \<^verbatim>\<open>search_splunk\<close> as it was raised.
\<close>

definition error_payload :: "exn \<Rightarrow> out_text" where
  "error_payload e = JsonDumps None (JDict [(''error'', JStr (str_exn e))])"

definition search_splunk ::
  "env \<Rightarrow> server \<Rightarrow> arg \<Rightarrow> arg \<Rightarrow> arg \<Rightarrow> ((exn + out_text) \<times> server) option" where
  "search_splunk en st query earliest_time latest_time =
     (case search_body en st query earliest_time latest_time of
        None \<Rightarrow> None
      | Some (Inl e, st') \<Rightarrow>
          if is_Exception e then Some (Inr (error_payload e), st') else Some (Inl e, st')
      | Some (Inr t, st') \<Rightarrow> Some (Inr t, st'))"

section \<open>The query compilers and the tools\<close>

text \<open>
  Each tool builds its query text and hands it to \<^verbatim>\<open>search_splunk\<close> with the
  time range and \<^verbatim>\<open>"now"\<close>. The text of each query is kept character by
  character, the line breaks and indentation of the triple-quoted literals
  included; \<open>py_str\<close> is the formatting of a replacement field.
\<close>

definition get_security_alerts_query :: "arg \<Rightarrow> arg \<Rightarrow> string" where
  \<open>get_security_alerts_query severity limit =
    (let severity_filter =
       (if severity = AStr ''all'' then [] else ''severity="'' @ py_str severity @ ''"'')
     in
     ''\<newline>'' @
     ''        search index=* sourcetype=* '' @
     severity_filter @
     ''\<newline>'' @
     ''        | where isnotnull(severity) OR isnotnull(signature) OR isnotnull(alert_type)\<newline>'' @
     ''        | head '' @
     py_str limit @
     ''\<newline>'' @
     ''        | table _time, src_ip, dest_ip, user, severity, signature, category, action, message\<newline>'' @
     ''        | sort - _time\<newline>'' @
     ''        '')\<close>

definition get_security_alerts ::
  "env \<Rightarrow> server \<Rightarrow> arg \<Rightarrow> arg \<Rightarrow> arg \<Rightarrow> ((exn + out_text) \<times> server) option" where
  "get_security_alerts en st severity time_range limit =
     search_splunk en st (AStr (get_security_alerts_query severity limit)) time_range (AStr ''now'')"

definition investigate_ip_query :: "arg \<Rightarrow> string" where
  \<open>investigate_ip_query ip_address =
     ''\<newline>'' @
     ''        search index=* ('' @
     py_str ip_address @
     '')\<newline>'' @
     ''        | stats count by sourcetype, action, dest_ip, dest_port, signature\<newline>'' @
     ''        | sort - count\<newline>'' @
     ''        ''\<close>

definition investigate_ip ::
  "env \<Rightarrow> server \<Rightarrow> arg \<Rightarrow> arg \<Rightarrow> ((exn + out_text) \<times> server) option" where
  "investigate_ip en st ip_address time_range =
     search_splunk en st (AStr (investigate_ip_query ip_address)) time_range (AStr ''now'')"

definition investigate_user_query :: "arg \<Rightarrow> string" where
  \<open>investigate_user_query username =
     ''\<newline>'' @
     ''        search index=* user="'' @
     py_str username @
     ''" OR src_user="'' @
     py_str username @
     ''"\<newline>'' @
     ''        | stats count by action, src_ip, dest, sourcetype, status\<newline>'' @
     ''        | sort - count\<newline>'' @
     ''        ''\<close>

definition investigate_user ::
  "env \<Rightarrow> server \<Rightarrow> arg \<Rightarrow> arg \<Rightarrow> ((exn + out_text) \<times> server) option" where
  "investigate_user en st username time_range =
     search_splunk en st (AStr (investigate_user_query username)) time_range (AStr ''now'')"

definition get_threat_intel_query :: "arg \<Rightarrow> string" where
  \<open>get_threat_intel_query ioc_type =
     ''\<newline>'' @
     ''        search index=* (threat OR malware OR suspicious OR ioc)\<newline>'' @
     ''        | stats count by src_ip, dest_ip, signature, category, severity\<newline>'' @
     ''        | where count > 1\<newline>'' @
     ''        | sort - count\<newline>'' @
     ''        ''\<close>

definition get_threat_intel ::
  "env \<Rightarrow> server \<Rightarrow> arg \<Rightarrow> arg \<Rightarrow> ((exn + out_text) \<times> server) option" where
  "get_threat_intel en st ioc_type time_range =
     search_splunk en st (AStr (get_threat_intel_query ioc_type)) time_range (AStr ''now'')"

text \<open>The three literals of \<^verbatim>\<open>get_security_metrics\<close>, in the order of its branches.\<close>

definition severity_count_query :: string where
  \<open>severity_count_query =
     ''\<newline>'' @
     ''            search index=* severity=*\<newline>'' @
     ''            | stats count by severity\<newline>'' @
     ''            | eval total=sum(count)\<newline>'' @
     ''            ''\<close>

definition threat_trends_query :: string where
  \<open>threat_trends_query =
     ''\<newline>'' @
     ''            search index=* (threat OR attack OR malware)\<newline>'' @
     ''            | timechart span=1h count by category\<newline>'' @
     ''            ''\<close>

definition sourcetype_count_query :: string where
  \<open>sourcetype_count_query =
     ''\<newline>'' @
     ''            search index=*\<newline>'' @
     ''            | stats count by sourcetype\<newline>'' @
     ''            | sort - count\<newline>'' @
     ''            ''\<close>

definition get_security_metrics_query :: "arg \<Rightarrow> string" where
  "get_security_metrics_query metric_type =
     (if metric_type = AStr ''alerts'' \<or> metric_type = AStr ''all'' then severity_count_query
      else if metric_type = AStr ''threat_trends'' then threat_trends_query
      else sourcetype_count_query)"

definition get_security_metrics ::
  "env \<Rightarrow> server \<Rightarrow> arg \<Rightarrow> arg \<Rightarrow> ((exn + out_text) \<times> server) option" where
  "get_security_metrics en st metric_type time_range =
     search_splunk en st (AStr (get_security_metrics_query metric_type)) time_range (AStr ''now'')"

definition analyze_failed_logins_query :: "arg \<Rightarrow> string" where
  \<open>analyze_failed_logins_query threshold =
     ''\<newline>'' @
     ''        search index=* (failed OR failure OR invalid) (login OR authentication OR logon)\<newline>'' @
     ''        | stats count by user, src_ip\<newline>'' @
     ''        | where count >= '' @
     py_str threshold @
     ''\<newline>'' @
     ''        | sort - count\<newline>'' @
     ''        ''\<close>

definition analyze_failed_logins ::
  "env \<Rightarrow> server \<Rightarrow> arg \<Rightarrow> arg \<Rightarrow> ((exn + out_text) \<times> server) option" where
  "analyze_failed_logins en st threshold time_range =
     search_splunk en st (AStr (analyze_failed_logins_query threshold)) time_range (AStr ''now'')"

definition detect_data_exfiltration_query :: "arg \<Rightarrow> string" where
  \<open>detect_data_exfiltration_query threshold_mb =
     ''\<newline>'' @
     ''        search index=* bytes > 0\<newline>'' @
     ''        | eval mb = bytes/1024/1024\<newline>'' @
     ''        | stats sum(mb) as total_mb by src_ip, dest_ip, user\<newline>'' @
     ''        | where total_mb > '' @
     py_str threshold_mb @
     ''\<newline>'' @
     ''        | sort - total_mb\<newline>'' @
     ''        ''\<close>

definition detect_data_exfiltration ::
  "env \<Rightarrow> server \<Rightarrow> arg \<Rightarrow> arg \<Rightarrow> ((exn + out_text) \<times> server) option" where
  "detect_data_exfiltration en st threshold_mb time_range =
     search_splunk en st (AStr (detect_data_exfiltration_query threshold_mb)) time_range (AStr ''now'')"

section \<open>The session and the dispatcher\<close>

text \<open>
  \<^verbatim>\<open>connect_to_splunk\<close>: \<^verbatim>\<open>True\<close> with the session stored, or \<^verbatim>\<open>False\<close> when
  the \<^verbatim>\<open>try\<close> raised something its \<^verbatim>\<open>except Exception\<close> catches (the message
  goes to standard output, which is not modelled); any other exception is
  raised to the caller.
\<close>

definition connect_to_splunk :: "env \<Rightarrow> server \<Rightarrow> (exn + bool) \<times> server" where
  "connect_to_splunk en st =
     (let st1 = st\<lparr>connects := Suc (connects st), trace := trace st @ [EvConnect]\<rparr> in
      case client_connect en (connects st) of
        Inl e \<Rightarrow> (if is_Exception e then Inr False else Inl e, st1)
      | Inr svc \<Rightarrow> (Inr True, st1\<lparr>splunk_service := Some svc\<rparr>))"

text \<open>\<^verbatim>\<open>arguments.get(key, default)\<close>; \<^verbatim>\<open>arguments.get(key)\<close> is the default \<open>ANone\<close>.\<close>

definition dict_get :: "(string \<rightharpoonup> arg) \<Rightarrow> string \<Rightarrow> arg \<Rightarrow> arg" where
  "dict_get arguments key dflt = (case arguments key of None \<Rightarrow> dflt | Some v \<Rightarrow> v)"

text \<open>The \<^verbatim>\<open>if\<close>/\<^verbatim>\<open>elif\<close> chain inside the \<^verbatim>\<open>try\<close> of \<^verbatim>\<open>call_tool\<close>, up to \<open>result\<close>.\<close>

definition tool_result ::
  "env \<Rightarrow> server \<Rightarrow> string \<Rightarrow> (string \<rightharpoonup> arg) \<Rightarrow> ((exn + out_text) \<times> server) option" where
  "tool_result en st name arguments =
     (if name = ''search_splunk'' then
        search_splunk en st
          (dict_get arguments ''query'' ANone)
          (dict_get arguments ''earliest_time'' (AStr ''-1h''))
          (dict_get arguments ''latest_time'' (AStr ''now''))
      else if name = ''get_security_alerts'' then
        get_security_alerts en st
          (dict_get arguments ''severity'' (AStr ''all''))
          (dict_get arguments ''time_range'' (AStr ''-24h''))
          (dict_get arguments ''limit'' (AInt 50))
      else if name = ''investigate_ip'' then
        investigate_ip en st
          (dict_get arguments ''ip_address'' ANone)
          (dict_get arguments ''time_range'' (AStr ''-24h''))
      else if name = ''investigate_user'' then
        investigate_user en st
          (dict_get arguments ''username'' ANone)
          (dict_get arguments ''time_range'' (AStr ''-24h''))
      else if name = ''get_threat_intel'' then
        get_threat_intel en st
          (dict_get arguments ''ioc_type'' (AStr ''all''))
          (dict_get arguments ''time_range'' (AStr ''-7d''))
      else if name = ''get_security_metrics'' then
        get_security_metrics en st
          (dict_get arguments ''metric_type'' (AStr ''all''))
          (dict_get arguments ''time_range'' (AStr ''-24h''))
      else if name = ''analyze_failed_logins'' then
        analyze_failed_logins en st
          (dict_get arguments ''threshold'' (AInt 5))
          (dict_get arguments ''time_range'' (AStr ''-1h''))
      else if name = ''detect_data_exfiltration'' then
        detect_data_exfiltration en st
          (dict_get arguments ''threshold_mb'' (AInt 100))
          (dict_get arguments ''time_range'' (AStr ''-1h''))
      else Some (Inr (Plain (''Unknown tool: '' @ name)), st))"

definition connect_failed_text :: out_text where
  "connect_failed_text = Plain ''Error: Failed to connect to Splunk. Check connection settings.''"

text \<open>The \<^verbatim>\<open>try\<close> of \<^verbatim>\<open>call_tool\<close> with its \<^verbatim>\<open>except Exception\<close>.\<close>

definition call_tool_try ::
  "env \<Rightarrow> server \<Rightarrow> string \<Rightarrow> (string \<rightharpoonup> arg) \<Rightarrow> ((exn + out_text) \<times> server) option" where
  "call_tool_try en st name arguments =
     (case tool_result en st name arguments of
        None \<Rightarrow> None
      | Some (Inl e, st2) \<Rightarrow>
          if is_Exception e
          then Some (Inr (Plain (''Error executing '' @ name @ '': '' @ str_exn e)), st2)
          else Some (Inl e, st2)
      | Some (Inr result, st2) \<Rightarrow> Some (Inr result, st2))"

text \<open>
  \<^verbatim>\<open>call_tool\<close>: the connection check, then the \<^verbatim>\<open>try\<close>. The value is the
  text of the one \<^verbatim>\<open>TextContent\<close> returned (\<open>Inr\<close>) or the exception raised to
  the framework that called the handler (\<open>Inl\<close>), and the server afterwards;
  \<open>None\<close> when the call never returns.
\<close>

definition call_tool ::
  "env \<Rightarrow> server \<Rightarrow> string \<Rightarrow> (string \<rightharpoonup> arg) \<Rightarrow> ((exn + out_text) \<times> server) option" where
  "call_tool en st name arguments =
     (if splunk_service st = None then
        (case connect_to_splunk en st of
           (Inl e, st1) \<Rightarrow> Some (Inl e, st1)
         | (Inr succeeded, st1) \<Rightarrow>
             if \<not> succeeded then Some (Inr connect_failed_text, st1)
             else call_tool_try en st1 name arguments)
      else call_tool_try en st name arguments)"

text \<open>
  The server handles one tool call at a time, each to completion before the
  next: a run is a list of calls, and its value the texts returned in order.
  What the framework does with an exception raised by the handler is outside
  the source; the run is followed up to such a call and reports it.
\<close>

fun run_calls ::
  "env \<Rightarrow> server \<Rightarrow> (string \<times> (string \<rightharpoonup> arg)) list \<Rightarrow>
     ((exn + out_text list) \<times> server) option" where
  "run_calls en st [] = Some (Inr [], st)"
| "run_calls en st ((name, arguments) # calls) =
     (case call_tool en st name arguments of
        None \<Rightarrow> None
      | Some (Inl e, st1) \<Rightarrow> Some (Inl e, st1)
      | Some (Inr t, st1) \<Rightarrow>
          (case run_calls en st1 calls of
             None \<Rightarrow> None
           | Some (Inl e, st2) \<Rightarrow> Some (Inl e, st2)
           | Some (Inr ts, st2) \<Rightarrow> Some (Inr (t # ts), st2)))"

section \<open>The tool registry\<close>

text \<open>
  \<^verbatim>\<open>list_tools\<close>: for each tool its name, its parameters (type, default and
  allowed values where the schema gives them) and the parameters it declares
  required. The descriptions are left out.
\<close>

record property =
  prop_type :: string
  prop_default :: "arg option"
  prop_enum :: "string list"

record tool =
  tool_name :: string
  properties :: "(string \<times> property) list"
  required :: "string list"

definition list_tools :: "tool list" where
  "list_tools =
     [\<lparr>tool_name = ''search_splunk'',
       properties =
         [(''query'', \<lparr>prop_type = ''string'', prop_default = None, prop_enum = []\<rparr>),
          (''earliest_time'', \<lparr>prop_type = ''string'', prop_default = Some (AStr ''-1h''), prop_enum = []\<rparr>),
          (''latest_time'', \<lparr>prop_type = ''string'', prop_default = Some (AStr ''now''), prop_enum = []\<rparr>)],
       required = [''query'']\<rparr>,
      \<lparr>tool_name = ''get_security_alerts'',
       properties =
         [(''severity'', \<lparr>prop_type = ''string'', prop_default = None,
             prop_enum = [''critical'', ''high'', ''medium'', ''low'', ''all'']\<rparr>),
          (''time_range'', \<lparr>prop_type = ''string'', prop_default = Some (AStr ''-24h''), prop_enum = []\<rparr>),
          (''limit'', \<lparr>prop_type = ''integer'', prop_default = Some (AInt 50), prop_enum = []\<rparr>)],
       required = []\<rparr>,
      \<lparr>tool_name = ''investigate_ip'',
       properties =
         [(''ip_address'', \<lparr>prop_type = ''string'', prop_default = None, prop_enum = []\<rparr>),
          (''time_range'', \<lparr>prop_type = ''string'', prop_default = Some (AStr ''-24h''), prop_enum = []\<rparr>)],
       required = [''ip_address'']\<rparr>,
      \<lparr>tool_name = ''investigate_user'',
       properties =
         [(''username'', \<lparr>prop_type = ''string'', prop_default = None, prop_enum = []\<rparr>),
          (''time_range'', \<lparr>prop_type = ''string'', prop_default = Some (AStr ''-24h''), prop_enum = []\<rparr>)],
       required = [''username'']\<rparr>,
      \<lparr>tool_name = ''get_threat_intel'',
       properties =
         [(''ioc_type'', \<lparr>prop_type = ''string'', prop_default = None,
             prop_enum = [''ip'', ''domain'', ''hash'', ''url'', ''all'']\<rparr>),
          (''time_range'', \<lparr>prop_type = ''string'', prop_default = Some (AStr ''-7d''), prop_enum = []\<rparr>)],
       required = []\<rparr>,
      \<lparr>tool_name = ''get_security_metrics'',
       properties =
         [(''metric_type'', \<lparr>prop_type = ''string'', prop_default = None,
             prop_enum = [''alerts'', ''incidents'', ''response_time'', ''threat_trends'', ''all'']\<rparr>),
          (''time_range'', \<lparr>prop_type = ''string'', prop_default = Some (AStr ''-24h''), prop_enum = []\<rparr>)],
       required = []\<rparr>,
      \<lparr>tool_name = ''analyze_failed_logins'',
       properties =
         [(''threshold'', \<lparr>prop_type = ''integer'', prop_default = Some (AInt 5), prop_enum = []\<rparr>),
          (''time_range'', \<lparr>prop_type = ''string'', prop_default = Some (AStr ''-1h''), prop_enum = []\<rparr>)],
       required = []\<rparr>,
      \<lparr>tool_name = ''detect_data_exfiltration'',
       properties =
         [(''threshold_mb'', \<lparr>prop_type = ''integer'', prop_default = Some (AInt 100), prop_enum = []\<rparr>),
          (''time_range'', \<lparr>prop_type = ''string'', prop_default = Some (AStr ''-1h''), prop_enum = []\<rparr>)],
       required = []\<rparr>]"

definition tool_names :: "string list" where
  "tool_names = map tool_name list_tools"

section \<open>Notions used to state the properties\<close>

text \<open>
  The arguments with which a call of a tool reaches \<^verbatim>\<open>search_splunk\<close>, read
  off the branches of \<open>tool_result\<close> and the tool functions; \<open>None\<close> for a
  name that falls through to the last \<^verbatim>\<open>else\<close>. Lemma \<open>tool_result_compiled\<close>
  links it to \<open>tool_result\<close>.
\<close>

definition compiled_query :: "string \<Rightarrow> (string \<rightharpoonup> arg) \<Rightarrow> (arg \<times> arg \<times> arg) option" where
  "compiled_query name arguments =
     (if name = ''search_splunk'' then
        Some (dict_get arguments ''query'' ANone,
              dict_get arguments ''earliest_time'' (AStr ''-1h''),
              dict_get arguments ''latest_time'' (AStr ''now''))
      else if name = ''get_security_alerts'' then
        Some (AStr (get_security_alerts_query
                (dict_get arguments ''severity'' (AStr ''all''))
                (dict_get arguments ''limit'' (AInt 50))),
              dict_get arguments ''time_range'' (AStr ''-24h''), AStr ''now'')
      else if name = ''investigate_ip'' then
        Some (AStr (investigate_ip_query (dict_get arguments ''ip_address'' ANone)),
              dict_get arguments ''time_range'' (AStr ''-24h''), AStr ''now'')
      else if name = ''investigate_user'' then
        Some (AStr (investigate_user_query (dict_get arguments ''username'' ANone)),
              dict_get arguments ''time_range'' (AStr ''-24h''), AStr ''now'')
      else if name = ''get_threat_intel'' then
        Some (AStr (get_threat_intel_query (dict_get arguments ''ioc_type'' (AStr ''all''))),
              dict_get arguments ''time_range'' (AStr ''-7d''), AStr ''now'')
      else if name = ''get_security_metrics'' then
        Some (AStr (get_security_metrics_query (dict_get arguments ''metric_type'' (AStr ''all''))),
              dict_get arguments ''time_range'' (AStr ''-24h''), AStr ''now'')
      else if name = ''analyze_failed_logins'' then
        Some (AStr (analyze_failed_logins_query (dict_get arguments ''threshold'' (AInt 5))),
              dict_get arguments ''time_range'' (AStr ''-1h''), AStr ''now'')
      else if name = ''detect_data_exfiltration'' then
        Some (AStr (detect_data_exfiltration_query (dict_get arguments ''threshold_mb'' (AInt 100))),
              dict_get arguments ''time_range'' (AStr ''-1h''), AStr ''now'')
      else None)"

text \<open>The trace of \<open>n\<close> polls that found the job unfinished, each followed by its sleep.\<close>

definition polls :: "nat \<Rightarrow> event list" where
  "polls n = concat (replicate n [EvIsDone, EvSleep (1 / 2)])"

text \<open>
  That poll \<open>i\<close> finds the job unfinished and the sleep after it returns, so
  that the loop goes round once more; and that this is so for the first \<open>n\<close>
  polls.
\<close>

definition step_waits :: "env \<Rightarrow> job \<Rightarrow> nat \<Rightarrow> bool" where
  "step_waits en j i \<longleftrightarrow> is_done j i = Inr False \<and> asyncio_sleep en i = Inr ()"

definition waits :: "env \<Rightarrow> job \<Rightarrow> nat \<Rightarrow> bool" where
  "waits en j n \<longleftrightarrow> (\<forall>i<n. step_waits en j i)"

text \<open>
  How the loop ends at poll \<open>n\<close>, when it ends there: the poll raised, or it
  reported the job done, or the sleep after it raised; with the events of
  that last round.
\<close>

definition last_round :: "env \<Rightarrow> job \<Rightarrow> nat \<Rightarrow> (exn + unit) \<times> event list" where
  "last_round en j n =
     (case is_done j n of
        Inl e \<Rightarrow> (Inl e, [EvIsDone])
      | Inr d \<Rightarrow>
          if d then (Inr (), [EvIsDone])
          else
            (case asyncio_sleep en n of
               Inl e \<Rightarrow> (Inl e, [EvIsDone, EvSleep (1 / 2)])
             | Inr u \<Rightarrow> (Inr (), [])))"

section \<open>Concrete backends\<close>

text \<open>A payload of 21 rows, as text and parsed.\<close>

definition many_rows_raw :: string where
  \<open>many_rows_raw =
     ''{"results": ['' @
     ''{"count": "7"}, {"count": "7"}, {"count": "7"}, '' @
     ''{"count": "7"}, {"count": "7"}, {"count": "7"}, '' @
     ''{"count": "7"}, {"count": "7"}, {"count": "7"}, '' @
     ''{"count": "7"}, {"count": "7"}, {"count": "7"}, '' @
     ''{"count": "7"}, {"count": "7"}, {"count": "7"}, '' @
     ''{"count": "7"}, {"count": "7"}, {"count": "7"}, '' @
     ''{"count": "7"}, {"count": "7"}, {"count": "7"}'' @
     '']}''\<close>

definition many_rows :: "json list" where
  "many_rows = replicate 21 (JDict [(''count'', JStr ''7'')])"

definition demo_loads :: "string \<Rightarrow> exn + json" where
  \<open>demo_loads raw =
     (if raw = ''{"results": []}'' then Inr (JDict [(''results'', JList [])])
      else if raw = ''{"results": [{"count": "7"}]}'' then
        Inr (JDict [(''results'', JList [JDict [(''count'', JStr ''7'')]])])
      else if raw = many_rows_raw then Inr (JDict [(''results'', JList many_rows)])
      else Inl (BackendError ''Expecting value: line 1 column 1 (char 0)''))\<close>

definition empty_stream :: result_stream where
  \<open>empty_stream = \<lparr>read = Inr ''{"results": []}''\<rparr>\<close>

definition many_rows_stream :: result_stream where
  "many_rows_stream = \<lparr>read = Inr many_rows_raw\<rparr>"

definition many_rows_job :: job where
  "many_rows_job = \<lparr>is_done = (\<lambda>k. Inr True), results = Inr many_rows_stream\<rparr>"

definition done_job :: job where
  "done_job = \<lparr>is_done = (\<lambda>k. Inr True), results = Inr empty_stream\<rparr>"

definition slow_job :: job where
  "slow_job = \<lparr>is_done = (\<lambda>k. Inr (2 \<le> k)), results = Inr empty_stream\<rparr>"

definition stuck_job :: job where
  "stuck_job = \<lparr>is_done = (\<lambda>k. Inr False), results = Inr empty_stream\<rparr>"

definition service_of :: "job \<Rightarrow> service" where
  "service_of j = \<lparr>jobs_create = (\<lambda>query earliest_time latest_time. Inr j)\<rparr>"

definition rejecting_service :: service where
  "rejecting_service =
     \<lparr>jobs_create = (\<lambda>query earliest_time latest_time.
        Inl (BackendError ''HTTP 400 Bad Request -- Unknown search command''))\<rparr>"

definition offline_env :: env where
  "offline_env =
     \<lparr>client_connect = (\<lambda>k. Inl (BackendError ''[Errno 111] Connection refused'')),
      json_loads = demo_loads,
      asyncio_sleep = (\<lambda>k. Inr ())\<rparr>"

text \<open>The same, with the task cancelled while it sleeps after the second poll.\<close>

definition cancelling_env :: env where
  "cancelling_env =
     \<lparr>client_connect = (\<lambda>k. Inl (BackendError ''[Errno 111] Connection refused'')),
      json_loads = demo_loads,
      asyncio_sleep = (\<lambda>k. if k = 1 then Inl (CancelledError []) else Inr ())\<rparr>"

definition server_with :: "service \<Rightarrow> server" where
  "server_with svc = \<lparr>splunk_service = Some svc, connects = 1, trace = [EvConnect]\<rparr>"

definition offline_server :: server where
  "offline_server = \<lparr>splunk_service = None, connects = 1, trace = [EvConnect]\<rparr>"

definition query_only :: "string \<Rightarrow> (string \<rightharpoonup> arg)" where
  "query_only q = [''query'' \<mapsto> AStr q]"

definition no_arguments :: "string \<rightharpoonup> arg" where
  "no_arguments = Map.empty"

section \<open>The wait loop\<close>

lemma polls_Suc: "[EvIsDone, EvSleep (1 / 2)] @ polls n = polls (Suc n)"
  by (simp add: polls_def)

lemma wait_loop_stop:
  assumes "\<not> step_waits en j k"
  shows "wait_loop en j k tr = Some (fst (last_round en j k), tr @ snd (last_round en j k))"
  using assms
  by (subst wait_loop.simps)
     (auto simp: step_waits_def last_round_def split: sum.splits)

lemma wait_loop_go:
  assumes "step_waits en j k"
  shows "wait_loop en j k tr = wait_loop en j (Suc k) (tr @ [EvIsDone, EvSleep (1 / 2)])"
  using assms
  by (subst wait_loop.simps) (simp add: step_waits_def)

text \<open>Whatever the loop returns, it returns at the first round that does not go on.\<close>

lemma wait_loop_Some:
  assumes "wait_loop en j k tr = Some y"
  shows "\<exists>n. (\<forall>i<n. step_waits en j (k + i)) \<and> \<not> step_waits en j (k + n) \<and>
             y = (fst (last_round en j (k + n)), tr @ polls n @ snd (last_round en j (k + n)))"
proof (rule wait_loop.raw_induct[where P = "\<lambda>en j k tr y.
    \<exists>n. (\<forall>i<n. step_waits en j (k + i)) \<and> \<not> step_waits en j (k + n) \<and>
        y = (fst (last_round en j (k + n)), tr @ polls n @ snd (last_round en j (k + n)))",
    OF _ assms], goal_cases)
  case (1 w en j k tr y)
  show ?case
  proof (cases "step_waits en j k")
    case False
    with 1(2) have "y = (fst (last_round en j k), tr @ snd (last_round en j k))"
      by (auto simp: step_waits_def last_round_def split: sum.splits if_splits)
    with False show ?thesis
      by (intro exI[of _ 0]) (simp add: polls_def)
  next
    case True
    with 1(2) have "w en j (Suc k) (tr @ [EvIsDone, EvSleep (1 / 2)]) = Some y"
      by (simp add: step_waits_def)
    from 1(1)[OF this] obtain n where n: "\<forall>i<n. step_waits en j (Suc k + i)"
      "\<not> step_waits en j (Suc k + n)"
      "y = (fst (last_round en j (Suc k + n)),
            (tr @ [EvIsDone, EvSleep (1 / 2)]) @ polls n @ snd (last_round en j (Suc k + n)))"
      by blast
    have "\<forall>i<Suc n. step_waits en j (k + i)"
    proof (intro allI impI)
      fix i assume "i < Suc n"
      then show "step_waits en j (k + i)"
        using True n(1) by (cases i) auto
    qed
    moreover have "y = (fst (last_round en j (k + Suc n)),
        tr @ polls (Suc n) @ snd (last_round en j (k + Suc n)))"
      using n(3) polls_Suc[of n] by simp
    ultimately show ?thesis
      using n(2) by (intro exI[of _ "Suc n"]) simp
  qed
qed

lemma wait_loop_returns:
  assumes "\<forall>i<n. step_waits en j (k + i)" and "\<not> step_waits en j (k + n)"
  shows "wait_loop en j k tr =
     Some (fst (last_round en j (k + n)), tr @ polls n @ snd (last_round en j (k + n)))"
  using assms
proof (induction n arbitrary: k tr)
  case 0
  then show ?case
    using wait_loop_stop[of en j k tr] by (simp add: polls_def)
next
  case (Suc n)
  from Suc.prems(1) have k: "step_waits en j k" by force
  have a: "\<not> step_waits en j (Suc k + n)" using Suc.prems(2) by simp
  have b: "\<forall>i<n. step_waits en j (Suc k + i)"
  proof (intro allI impI)
    fix i assume "i < n"
    then have "Suc i < Suc n" by simp
    with Suc.prems(1) have "step_waits en j (k + Suc i)" by blast
    then show "step_waits en j (Suc k + i)" by simp
  qed
  have "wait_loop en j k tr = wait_loop en j (Suc k) (tr @ [EvIsDone, EvSleep (1 / 2)])"
    by (rule wait_loop_go[OF k])
  also have "\<dots> = Some (fst (last_round en j (Suc k + n)),
      (tr @ [EvIsDone, EvSleep (1 / 2)]) @ polls n @ snd (last_round en j (Suc k + n)))"
    by (rule Suc.IH[OF b a])
  finally show ?case using polls_Suc[of n] by simp
qed

text \<open>A loop that does not go on for ever has a first round at which it stops.\<close>

lemma first_stop:
  assumes "\<not> step_waits en j m"
  shows "\<exists>n. \<not> step_waits en j n \<and> (\<forall>i<n. step_waits en j i)"
proof -
  let ?n = "LEAST n. \<not> step_waits en j n"
  have "\<not> step_waits en j ?n"
    using assms by (rule LeastI)
  moreover have "\<forall>i<?n. step_waits en j i"
    using not_less_Least by blast
  ultimately show ?thesis by blast
qed

lemma wait_loop_None_iff:
  "wait_loop en j 0 tr = None \<longleftrightarrow> (\<forall>i. step_waits en j i)"
proof
  assume n: "wait_loop en j 0 tr = None"
  show "\<forall>i. step_waits en j i"
  proof (rule ccontr)
    assume "\<not> (\<forall>i. step_waits en j i)"
    then obtain m where "\<not> step_waits en j m" by blast
    from first_stop[OF this] obtain k where
      "\<forall>i<k. step_waits en j (0 + i)" "\<not> step_waits en j (0 + k)" by auto
    from wait_loop_returns[OF this] n show False by simp
  qed
next
  assume a: "\<forall>i. step_waits en j i"
  show "wait_loop en j 0 tr = None"
  proof (cases "wait_loop en j 0 tr")
    case (Some y)
    from wait_loop_Some[OF this] a show ?thesis by blast
  qed simp
qed

lemma wait_loop_waits:
  assumes "waits en j n" and "\<not> step_waits en j n"
  shows "wait_loop en j 0 tr = Some (fst (last_round en j n), tr @ polls n @ snd (last_round en j n))"
  using wait_loop_returns[of n en j 0 tr] assms by (simp add: waits_def)

section \<open>The body of \<open>search_splunk\<close>, case by case\<close>

lemma search_body_no_session:
  assumes "splunk_service st = None"
  shows "search_body en st q e l =
    Some (Inl (AttributeError (quoted ''NoneType'' @ '' object has no attribute '' @ quoted ''jobs'')), st)"
  using assms by (simp add: search_body_def)

lemma search_body_create_raises:
  assumes "splunk_service st = Some svc" and "jobs_create svc q e l = Inl ex"
  shows "search_body en st q e l = Some (Inl ex, st\<lparr>trace := trace st @ [EvCreate q e l]\<rparr>)"
  using assms by (simp add: search_body_def)

lemma search_body_never_done:
  assumes "splunk_service st = Some svc" and "jobs_create svc q e l = Inr j"
    and "\<forall>i. step_waits en j i"
  shows "search_body en st q e l = None"
  using assms wait_loop_None_iff[of en j "trace st @ [EvCreate q e l]"]
  by (simp add: search_body_def)



lemma search_body_done:
  assumes "splunk_service st = Some svc" and "jobs_create svc q e l = Inr j"
    and "waits en j n" and "is_done j n = Inr True"
    and "fetch_results en j (trace st @ [EvCreate q e l] @ polls n @ [EvIsDone]) = (r, tr2)"
  shows "search_body en st q e l =
    Some (case r of Inl ex \<Rightarrow> Inl ex | Inr results_data \<Rightarrow> format_results q e l results_data,
          st\<lparr>trace := tr2\<rparr>)"
proof -
  have "\<not> step_waits en j n" using assms(4) by (simp add: step_waits_def)
  from wait_loop_waits[OF assms(3) this, of "trace st @ [EvCreate q e l]"] assms(4)
  have "wait_loop en j 0 (trace st @ [EvCreate q e l]) =
      Some (Inr (), (trace st @ [EvCreate q e l]) @ polls n @ [EvIsDone])"
    by (simp add: last_round_def)
  then show ?thesis
    using assms(1,2,5) by (simp add: search_body_def split: sum.splits)
qed

lemma search_body_None_iff:
  "search_body en st q e l = None \<longleftrightarrow>
     (\<exists>svc j. splunk_service st = Some svc \<and> jobs_create svc q e l = Inr j \<and>
        (\<forall>i. step_waits en j i))"
proof (cases "splunk_service st")
  case None
  then show ?thesis by (simp add: search_body_def)
next
  case (Some svc)
  show ?thesis
  proof (cases "jobs_create svc q e l")
    case (Inl ex)
    with Some show ?thesis by (simp add: search_body_def)
  next
    case (Inr j)
    have "search_body en st q e l = None \<longleftrightarrow> wait_loop en j 0 (trace st @ [EvCreate q e l]) = None"
      using Some Inr
      by (auto simp: search_body_def split: option.splits sum.splits prod.splits)
    then show ?thesis
      using Some Inr by (simp add: wait_loop_None_iff)
  qed
qed

lemma search_splunk_None_iff:
  "search_splunk en st q e l = None \<longleftrightarrow> search_body en st q e l = None"
  by (auto simp: search_splunk_def split: option.splits sum.splits prod.splits)

lemma search_splunk_of_body:
  assumes "search_body en st q e l = Some (r, st')"
  shows "search_splunk en st q e l =
    Some (case r of
            Inl ex \<Rightarrow> if is_Exception ex then Inr (error_payload ex) else Inl ex
          | Inr t \<Rightarrow> Inr t, st')"
  using assms by (simp add: search_splunk_def split: sum.splits)

lemma search_splunk_raises_iff:
  "search_splunk en st q e l = Some (Inl ex, st') \<longleftrightarrow>
     search_body en st q e l = Some (Inl ex, st') \<and> \<not> is_Exception ex"
  by (auto simp: search_splunk_def split: option.splits sum.splits prod.splits if_splits)

text \<open>With a session, whatever the body returns follows a job submission, and the session stays.\<close>

lemma search_body_trace:
  assumes "splunk_service st = Some svc" and "search_body en st q e l = Some (r, st')"
  shows "\<exists>rest. trace st' = trace st @ EvCreate q e l # rest \<and>
           splunk_service st' = splunk_service st \<and> connects st' = connects st"
proof (cases "jobs_create svc q e l")
  case (Inl ex)
  with assms show ?thesis by (auto simp: search_body_def)
next
  case (Inr j)
  with assms obtain w where w: "wait_loop en j 0 (trace st @ [EvCreate q e l]) = Some w"
    by (auto simp: search_body_def split: option.splits)
  from wait_loop_Some[OF w] obtain n where
    n: "w = (fst (last_round en j (0 + n)),
             (trace st @ [EvCreate q e l]) @ polls n @ snd (last_round en j (0 + n)))"
    by blast
  show ?thesis
    using assms Inr w n
    by (auto simp: search_body_def fetch_results_def split: sum.splits prod.splits)
qed

lemma search_splunk_trace:
  assumes "splunk_service st = Some svc" and "search_splunk en st q e l = Some (r, st')"
  shows "\<exists>rest. trace st' = trace st @ EvCreate q e l # rest \<and>
           splunk_service st' = splunk_service st \<and> connects st' = connects st"
proof -
  from assms(2) obtain r0 where "search_body en st q e l = Some (r0, st')"
    by (auto simp: search_splunk_def split: option.splits sum.splits prod.splits if_splits)
  from search_body_trace[OF assms(1) this] show ?thesis .
qed

section \<open>The dispatcher and the compiled query\<close>

lemma tool_result_compiled:
  "tool_result en st name arguments =
     (case compiled_query name arguments of
        None \<Rightarrow> Some (Inr (Plain (''Unknown tool: '' @ name)), st)
      | Some (q, e, l) \<Rightarrow> search_splunk en st q e l)"
  unfolding tool_result_def compiled_query_def get_security_alerts_def investigate_ip_def
    investigate_user_def get_threat_intel_def get_security_metrics_def
    analyze_failed_logins_def detect_data_exfiltration_def
  by simp

lemma compiled_query_registered:
  "compiled_query name arguments \<noteq> None \<longleftrightarrow> name \<in> set tool_names"
  by (simp add: compiled_query_def tool_names_def list_tools_def)

text \<open>
  What a tool raises is what \<^verbatim>\<open>search_splunk\<close> let through, which the
  \<^verbatim>\<open>except Exception\<close> of \<^verbatim>\<open>call_tool\<close> lets through as well: that clause
  never fires.
\<close>

lemma tool_result_raises:
  assumes "tool_result en st name arguments = Some (Inl ex, st')"
  shows "\<not> is_Exception ex"
  using assms
  by (auto simp: tool_result_compiled search_splunk_raises_iff split: option.splits)

lemma call_tool_try_is_tool_result:
  "call_tool_try en st name arguments = tool_result en st name arguments"
proof (cases "tool_result en st name arguments")
  case None
  then show ?thesis by (simp add: call_tool_try_def)
next
  case (Some a)
  obtain r st' where a: "a = (r, st')" by (cases a)
  show ?thesis
  proof (cases r)
    case (Inl ex)
    with Some a tool_result_raises[of en st name arguments ex st'] show ?thesis
      by (simp add: call_tool_try_def)
  next
    case (Inr t)
    with Some a show ?thesis by (simp add: call_tool_try_def)
  qed
qed

lemma call_tool_connected:
  assumes "splunk_service st = Some svc"
  shows "call_tool en st name arguments =
     (case compiled_query name arguments of
        None \<Rightarrow> Some (Inr (Plain (''Unknown tool: '' @ name)), st)
      | Some (q, e, l) \<Rightarrow> search_splunk en st q e l)"
  using assms
  by (simp add: call_tool_def call_tool_try_is_tool_result tool_result_compiled)

lemma call_tool_connect_fails:
  assumes "splunk_service st = None" and "client_connect en (connects st) = Inl ex"
    and "is_Exception ex"
  shows "call_tool en st name arguments =
     Some (Inr connect_failed_text,
           st\<lparr>connects := Suc (connects st), trace := trace st @ [EvConnect]\<rparr>)"
  using assms by (simp add: call_tool_def connect_to_splunk_def)

lemma call_tool_connect_raises:
  assumes "splunk_service st = None" and "client_connect en (connects st) = Inl ex"
    and "\<not> is_Exception ex"
  shows "call_tool en st name arguments =
     Some (Inl ex, st\<lparr>connects := Suc (connects st), trace := trace st @ [EvConnect]\<rparr>)"
  using assms by (simp add: call_tool_def connect_to_splunk_def)

lemma call_tool_connect_succeeds:
  assumes "splunk_service st = None" and "client_connect en (connects st) = Inr svc"
  shows "call_tool en st name arguments =
     call_tool en (st\<lparr>connects := Suc (connects st), trace := trace st @ [EvConnect],
                     splunk_service := Some svc\<rparr>) name arguments"
  using assms by (simp add: call_tool_def connect_to_splunk_def)

lemma call_tool_cong_compiled:
  assumes "compiled_query name a1 = compiled_query name a2"
  shows "call_tool en st name a1 = call_tool en st name a2"
proof -
  have "\<And>s. call_tool_try en s name a1 = call_tool_try en s name a2"
    by (simp add: call_tool_try_is_tool_result tool_result_compiled assms)
  then show ?thesis
    unfolding call_tool_def by (simp only:)
qed

section \<open>Evaluating the model on concrete inputs\<close>

lemmas run_defs =
  call_tool_def call_tool_try_def tool_result_def search_splunk_def search_body_def
  fetch_results_def format_results_def no_results_envelope_def error_payload_def dict_get_def
  connect_to_splunk_def connect_failed_text_def
  get_security_alerts_def investigate_ip_def investigate_user_def get_threat_intel_def
  get_security_metrics_def analyze_failed_logins_def detect_data_exfiltration_def

lemmas demo_defs =
  server_with_def offline_server_def service_of_def rejecting_service_def offline_env_def
  cancelling_env_def demo_loads_def empty_stream_def done_job_def slow_job_def stuck_job_def
  no_arguments_def many_rows_stream_def many_rows_job_def query_only_def

lemma no_arguments_lookup [simp]: "no_arguments key = None"
  by (simp add: no_arguments_def)

lemma waits_0 [simp]: "waits en j 0"
  by (simp add: waits_def)

lemma waits_Suc: "waits en j (Suc n) \<longleftrightarrow> waits en j n \<and> step_waits en j n"
  by (auto simp: waits_def less_Suc_eq)


lemma required_parameters:
  assumes "sch \<in> set list_tools" and "key \<in> set (required sch)"
  shows "(tool_name sch, key) \<in>
     {(''search_splunk'', ''query''), (''investigate_ip'', ''ip_address''),
      (''investigate_user'', ''username'')}"
  using assms by (auto simp: list_tools_def)

lemma investigate_ip_without_address:
  "call_tool offline_env (server_with (service_of done_job)) ''investigate_ip'' no_arguments =
     Some (Inr (JsonDumps None (JDict [(''query'', JStr (investigate_ip_query ANone)),
                             (''event_count'', JInt 0),
                             (''message'', JStr ''No results found'')])),
           \<lparr>splunk_service = Some (service_of done_job), connects = 1,
            trace = [EvConnect,
                     EvCreate (AStr (investigate_ip_query ANone)) (AStr ''-24h'') (AStr ''now''),
                     EvIsDone, EvResults, EvRead]\<rparr>)"
  by (simp add: run_defs demo_defs wait_loop.simps)

section \<open>Missing required arguments\<close>

text \<open>
  C1, as amended. The handler \<^verbatim>\<open>call_tool\<close> itself validates nothing (whether
  the framework that registers it checks the arguments against the schema
  before calling it is outside the source). For each tool whose schema
  declares a required parameter (\<^verbatim>\<open>query\<close> of \<^verbatim>\<open>search_splunk\<close>,
  \<^verbatim>\<open>ip_address\<close> of \<^verbatim>\<open>investigate_ip\<close>, \<^verbatim>\<open>username\<close> of
  \<^verbatim>\<open>investigate_user\<close>), \<^verbatim>\<open>call_tool\<close> invoked on a server with a session and
  without that argument reads it as \<^verbatim>\<open>None\<close>, compiles the query with it
  (\<^verbatim>\<open>None\<close> itself for \<^verbatim>\<open>search_splunk\<close>, the text \<^verbatim>\<open>None\<close> interpolated
  for the other two) and is exactly the run of \<^verbatim>\<open>search_splunk\<close> on that
  query: when the run returns, its trace continues with the submission of
  that job; when it does not return, that is because the job was submitted
  and the wait for it never ends.
\<close>

theorem missing_required_argument_is_submitted:
  assumes "sch \<in> set list_tools" and "key \<in> set (required sch)" and "arguments key = None"
    and "splunk_service st = Some svc"
  shows "\<exists>q e l.
     compiled_query (tool_name sch) arguments = Some (q, e, l) \<and>
     q = (if tool_name sch = ''search_splunk'' then ANone
          else if tool_name sch = ''investigate_ip'' then AStr (investigate_ip_query ANone)
          else AStr (investigate_user_query ANone)) \<and>
     call_tool en st (tool_name sch) arguments = search_splunk en st q e l \<and>
     (\<forall>r st'. search_splunk en st q e l = Some (r, st') \<longrightarrow>
        (\<exists>rest. trace st' = trace st @ EvCreate q e l # rest)) \<and>
     (search_splunk en st q e l = None \<longrightarrow>
        (\<exists>j. jobs_create svc q e l = Inr j \<and> (\<forall>i. step_waits en j i)))"
proof -
  let ?q = "if tool_name sch = ''search_splunk'' then ANone
          else if tool_name sch = ''investigate_ip'' then AStr (investigate_ip_query ANone)
          else AStr (investigate_user_query ANone)"
  from required_parameters[OF assms(1,2)] assms(3)
  obtain e l where c: "compiled_query (tool_name sch) arguments = Some (?q, e, l)"
    by (auto simp: compiled_query_def dict_get_def)
  have s: "call_tool en st (tool_name sch) arguments = search_splunk en st ?q e l"
    unfolding call_tool_connected[OF assms(4)] c by simp
  have t: "\<forall>r st'. search_splunk en st ?q e l = Some (r, st') \<longrightarrow>
        (\<exists>rest. trace st' = trace st @ EvCreate ?q e l # rest)"
    using search_splunk_trace[OF assms(4)] by blast
  have n: "search_splunk en st ?q e l = None \<longrightarrow>
        (\<exists>j. jobs_create svc ?q e l = Inr j \<and> (\<forall>i. step_waits en j i))"
    using assms(4) by (auto simp: search_splunk_None_iff search_body_None_iff)
  show ?thesis
    by (intro exI conjI) (rule c, rule refl, rule s, rule t, rule n)
qed

text \<open>
  C1, as stated, fails: \<^verbatim>\<open>search_splunk\<close> called without \<^verbatim>\<open>query\<close> on a
  connected server submits a job for the query \<^verbatim>\<open>None\<close>, polls it, fetches
  its results, and returns the "No results found" envelope rather than an
  error naming \<^verbatim>\<open>query\<close>.
\<close>

theorem missing_required_argument_counterexample:
  "call_tool offline_env (server_with (service_of done_job)) ''search_splunk'' no_arguments =
     Some (Inr (JsonDumps None (JDict [(''query'', JNull), (''event_count'', JInt 0),
                             (''message'', JStr ''No results found'')])),
           \<lparr>splunk_service = Some (service_of done_job), connects = 1,
            trace = [EvConnect, EvCreate ANone (AStr ''-1h'') (AStr ''now''),
                     EvIsDone, EvResults, EvRead]\<rparr>)"
  by (simp add: run_defs demo_defs wait_loop.simps)

text \<open>
  The amended C1 at \<^verbatim>\<open>investigate_ip\<close> called with no arguments: against a
  job that is done at once, and against a job that is never done.
\<close>

theorem missing_required_argument_witness:
  "list_tools ! 2 \<in> set list_tools \<and>
   ''ip_address'' \<in> set (required (list_tools ! 2)) \<and>
   no_arguments ''ip_address'' = (None :: arg option) \<and>
   tool_name (list_tools ! 2) = ''investigate_ip'' \<and>
   splunk_service (server_with (service_of done_job)) = Some (service_of done_job) \<and>
   splunk_service (server_with (service_of stuck_job)) = Some (service_of stuck_job) \<and>
   compiled_query ''investigate_ip'' no_arguments =
     Some (AStr (investigate_ip_query ANone), AStr ''-24h'', AStr ''now'') \<and>
   (\<exists>rest. trace (snd (the (call_tool offline_env (server_with (service_of done_job))
                               ''investigate_ip'' no_arguments))) =
      [EvConnect] @
      EvCreate (AStr (investigate_ip_query ANone)) (AStr ''-24h'') (AStr ''now'') # rest) \<and>
   call_tool offline_env (server_with (service_of stuck_job)) ''investigate_ip'' no_arguments = None \<and>
   (\<exists>j. jobs_create (service_of stuck_job)
          (AStr (investigate_ip_query ANone)) (AStr ''-24h'') (AStr ''now'') = Inr j \<and>
        (\<forall>i. step_waits offline_env j i))"
proof -
  let ?q = "AStr (investigate_ip_query ANone)"
  have h1: "list_tools ! 2 \<in> set list_tools" by (simp add: list_tools_def)
  have h2: "''ip_address'' \<in> set (required (list_tools ! 2))" by (simp add: list_tools_def)
  have h3: "no_arguments ''ip_address'' = (None :: arg option)" by simp
  have n: "tool_name (list_tools ! 2) = ''investigate_ip''" by (simp add: list_tools_def)
  have c: "compiled_query ''investigate_ip'' no_arguments = Some (?q, AStr ''-24h'', AStr ''now'')"
    by (simp add: compiled_query_def dict_get_def)
  have d4: "splunk_service (server_with (service_of done_job)) = Some (service_of done_job)"
    by (simp add: server_with_def)
  have s4: "splunk_service (server_with (service_of stuck_job)) = Some (service_of stuck_job)"
    by (simp add: server_with_def)
  from missing_required_argument_is_submitted[where arguments = no_arguments and en = offline_env,
      OF h1 h2 h3 d4] c
  have d: "call_tool offline_env (server_with (service_of done_job)) ''investigate_ip'' no_arguments =
        search_splunk offline_env (server_with (service_of done_job)) ?q (AStr ''-24h'') (AStr ''now'')"
    "\<forall>r st'. search_splunk offline_env (server_with (service_of done_job)) ?q (AStr ''-24h'') (AStr ''now'') =
        Some (r, st') \<longrightarrow>
        (\<exists>rest. trace st' = trace (server_with (service_of done_job)) @
            EvCreate ?q (AStr ''-24h'') (AStr ''now'') # rest)"
    unfolding n by auto
  from d investigate_ip_without_address
  have r1: "\<exists>rest. trace (snd (the (call_tool offline_env (server_with (service_of done_job))
                               ''investigate_ip'' no_arguments))) =
      [EvConnect] @ EvCreate ?q (AStr ''-24h'') (AStr ''now'') # rest"
    by (simp add: server_with_def)
  have stuck: "\<forall>i. step_waits offline_env stuck_job i"
    by (simp add: step_waits_def stuck_job_def offline_env_def)
  have "search_body offline_env (server_with (service_of stuck_job)) ?q (AStr ''-24h'') (AStr ''now'') = None"
    by (rule search_body_never_done[OF s4 _ stuck]) (simp add: service_of_def)
  then have none: "search_splunk offline_env (server_with (service_of stuck_job)) ?q (AStr ''-24h'') (AStr ''now'') = None"
    by (simp add: search_splunk_None_iff)
  from missing_required_argument_is_submitted[where arguments = no_arguments and en = offline_env,
      OF h1 h2 h3 s4] c none
  have r2: "call_tool offline_env (server_with (service_of stuck_job)) ''investigate_ip'' no_arguments = None"
    and r3: "\<exists>j. jobs_create (service_of stuck_job) ?q (AStr ''-24h'') (AStr ''now'') = Inr j \<and>
        (\<forall>i. step_waits offline_env j i)"
    unfolding n by auto
  from h1 h2 h3 n d4 s4 c r1 r2 r3 show ?thesis by (simp only: simp_thms)
qed

section \<open>The response envelope\<close>

text \<open>A successful body of \<open>search_splunk\<close> formats a payload fetched from the job.\<close>

lemma search_body_Inr:
  assumes "search_body en st q e l = Some (Inr t, st')"
  shows "\<exists>svc j rs raw results_data.
     splunk_service st = Some svc \<and> jobs_create svc q e l = Inr j \<and>
     results j = Inr rs \<and> read rs = Inr raw \<and> json_loads en raw = Inr results_data \<and>
     format_results q e l results_data = Inr t"
  using assms
  by (auto simp: search_body_def fetch_results_def Let_def
      split: option.splits sum.splits prod.splits)

lemma falsy_has_no_rows:
  assumes "\<not> truthy rows" and "py_len rows = Inr m"
  shows "m = 0"
  using assms by (cases rows) auto

lemma format_results_count:
  assumes "format_results query earliest_time latest_time results_data = Inr (JsonDumps ind (JDict d))"
  shows "\<exists>n. map_of d ''event_count'' = Some (JInt (int n)) \<and>
     (case map_of d ''results'' of
        None \<Rightarrow>
          n = 0 \<and>
          (py_contains ''results'' results_data = Inr False \<or>
           (\<exists>rows. py_getitem results_data ''results'' = Inr rows \<and> \<not> truthy rows \<and>
              (\<forall>m. py_len rows = Inr m \<longrightarrow> m = 0)))
      | Some shown \<Rightarrow>
          py_len shown = Inr (min n 20) \<and>
          (\<exists>rows. py_getitem results_data ''results'' = Inr rows \<and> py_len rows = Inr n))"
proof (cases "map_of d ''results''")
  case None
  with assms have "map_of d ''event_count'' = Some (JInt (int 0))"
    and "py_contains ''results'' results_data = Inr False \<or>
           (\<exists>rows. py_getitem results_data ''results'' = Inr rows \<and> \<not> truthy rows)"
    by (auto simp: format_results_def no_results_envelope_def
        split: sum.splits bool.splits if_splits)
  with None falsy_has_no_rows show ?thesis
    by (intro exI[of _ 0]) auto
next
  case (Some shown)
  with assms obtain rows n where r: "py_getitem results_data ''results'' = Inr rows"
    "py_len rows = Inr n" "py_slice20 rows = Inr shown"
    "map_of d ''event_count'' = Some (JInt (int n))"
    by (auto simp: format_results_def no_results_envelope_def
        split: sum.splits bool.splits if_splits)
  from r(2,3) have "py_len shown = Inr (min n 20)"
    by (cases rows) (auto simp: min_def)
  with r Some show ?thesis by auto
qed

lemma many_rows_raw_distinct:
  \<open>many_rows_raw \<noteq> ''{"results": []}''\<close> \<open>many_rows_raw \<noteq> ''{"results": [{"count": "7"}]}''\<close>
  by (simp_all add: many_rows_raw_def)

lemma many_rows_search:
  "search_splunk offline_env (server_with (service_of many_rows_job))
      (AStr ''search index=main'') (AStr ''-1h'') (AStr ''now'') =
   Some (Inr (JsonDumps (Some 2) (JDict
           [(''query'', JStr ''search index=main''),
            (''event_count'', JInt 21),
            (''time_range'', JStr ''-1h to now''),
            (''results'', JList (replicate 20 (JDict [(''count'', JStr ''7'')])))])),
         \<lparr>splunk_service = Some (service_of many_rows_job), connects = 1,
          trace = [EvConnect, EvCreate (AStr ''search index=main'') (AStr ''-1h'') (AStr ''now''),
                   EvIsDone, EvResults, EvRead]\<rparr>)"
  by (simp add: run_defs demo_defs wait_loop.simps many_rows_raw_distinct many_rows_def)

lemma no_rows_search:
  "search_splunk offline_env (server_with (service_of done_job))
      (AStr ''search index=main'') (AStr ''-1h'') (AStr ''now'') =
   Some (Inr (JsonDumps None (JDict
           [(''query'', JStr ''search index=main''),
            (''event_count'', JInt 0),
            (''message'', JStr ''No results found'')])),
         \<lparr>splunk_service = Some (service_of done_job), connects = 1,
          trace = [EvConnect, EvCreate (AStr ''search index=main'') (AStr ''-1h'') (AStr ''now''),
                   EvIsDone, EvResults, EvRead]\<rparr>)"
  by (simp add: run_defs demo_defs wait_loop.simps)

text \<open>
  C2. Every response of \<^verbatim>\<open>search_splunk\<close> that is not an error payload was
  formatted from a payload parsed from the backend, and carries an
  \<^verbatim>\<open>event_count\<close> that is a non-negative integer \<open>n\<close>. When it carries a
  \<^verbatim>\<open>results\<close> list, the length of that list is \<open>min n 20\<close>, and \<open>n\<close> is the
  number of rows under \<^verbatim>\<open>results\<close> in that payload, before truncation. The
  only other envelope is the "No results found" one, which has no
  \<^verbatim>\<open>results\<close> entry: there \<open>n = 0\<close>, and the payload has no \<^verbatim>\<open>results\<close>
  key or nothing under it (a falsy value, of length 0 when it has a length).
\<close>

theorem envelope_count_invariant:
  assumes "search_splunk en st q e l = Some (Inr (JsonDumps ind (JDict d)), st')"
    and "map_of d ''error'' = None"
  shows "\<exists>n svc j rs raw results_data.
     splunk_service st = Some svc \<and> jobs_create svc q e l = Inr j \<and>
     results j = Inr rs \<and> read rs = Inr raw \<and> json_loads en raw = Inr results_data \<and>
     map_of d ''event_count'' = Some (JInt (int n)) \<and>
     (case map_of d ''results'' of
        None \<Rightarrow>
          n = 0 \<and>
          (py_contains ''results'' results_data = Inr False \<or>
           (\<exists>rows. py_getitem results_data ''results'' = Inr rows \<and> \<not> truthy rows \<and>
              (\<forall>m. py_len rows = Inr m \<longrightarrow> m = 0)))
      | Some shown \<Rightarrow>
          py_len shown = Inr (min n 20) \<and>
          (\<exists>rows. py_getitem results_data ''results'' = Inr rows \<and> py_len rows = Inr n))"
proof -
  from assms have b: "search_body en st q e l = Some (Inr (JsonDumps ind (JDict d)), st')"
    by (auto simp: search_splunk_def error_payload_def
        split: option.splits sum.splits prod.splits if_splits)
  from search_body_Inr[OF b] obtain svc j rs raw results_data where
    f: "splunk_service st = Some svc" "jobs_create svc q e l = Inr j"
       "results j = Inr rs" "read rs = Inr raw" "json_loads en raw = Inr results_data"
       "format_results q e l results_data = Inr (JsonDumps ind (JDict d))"
    by blast
  from format_results_count[OF f(6)] obtain n where
    n: "map_of d ''event_count'' = Some (JInt (int n))"
       "case map_of d ''results'' of
        None \<Rightarrow>
          n = 0 \<and>
          (py_contains ''results'' results_data = Inr False \<or>
           (\<exists>rows. py_getitem results_data ''results'' = Inr rows \<and> \<not> truthy rows \<and>
              (\<forall>m. py_len rows = Inr m \<longrightarrow> m = 0)))
      | Some shown \<Rightarrow>
          py_len shown = Inr (min n 20) \<and>
          (\<exists>rows. py_getitem results_data ''results'' = Inr rows \<and> py_len rows = Inr n)"
    by blast
  show ?thesis
    by (intro exI conjI) (rule f(1), rule f(2), rule f(3), rule f(4), rule f(5), rule n(1), rule n(2))
qed

text \<open>
  C2 at a backend that reports 21 rows (the count is 21, and 20 rows are
  returned) and at a backend that reports none (the count is 0).
\<close>

theorem envelope_count_witness:
  "search_splunk offline_env (server_with (service_of many_rows_job))
      (AStr ''search index=main'') (AStr ''-1h'') (AStr ''now'') =
   Some (Inr (JsonDumps (Some 2) (JDict
           [(''query'', JStr ''search index=main''),
            (''event_count'', JInt 21),
            (''time_range'', JStr ''-1h to now''),
            (''results'', JList (replicate 20 (JDict [(''count'', JStr ''7'')])))])),
         \<lparr>splunk_service = Some (service_of many_rows_job), connects = 1,
          trace = [EvConnect, EvCreate (AStr ''search index=main'') (AStr ''-1h'') (AStr ''now''),
                   EvIsDone, EvResults, EvRead]\<rparr>) \<and>
   py_len (JList (replicate 20 (JDict [(''count'', JStr ''7'')]))) = Inr (min 21 20) \<and>
   json_loads offline_env many_rows_raw = Inr (JDict [(''results'', JList many_rows)]) \<and>
   py_len (JList many_rows) = Inr 21 \<and>
   search_splunk offline_env (server_with (service_of done_job))
      (AStr ''search index=main'') (AStr ''-1h'') (AStr ''now'') =
   Some (Inr (JsonDumps None (JDict
           [(''query'', JStr ''search index=main''),
            (''event_count'', JInt 0),
            (''message'', JStr ''No results found'')])),
         \<lparr>splunk_service = Some (service_of done_job), connects = 1,
          trace = [EvConnect, EvCreate (AStr ''search index=main'') (AStr ''-1h'') (AStr ''now''),
                   EvIsDone, EvResults, EvRead]\<rparr>) \<and>
   (\<exists>results_data. json_loads offline_env ''{\"results\": []}'' = Inr results_data \<and>
      (py_contains ''results'' results_data = Inr False \<or>
       (\<exists>rows. py_getitem results_data ''results'' = Inr rows \<and> \<not> truthy rows \<and>
          (\<forall>m. py_len rows = Inr m \<longrightarrow> m = 0))))"
proof -
  let ?d = "[(''query'', JStr ''search index=main''),
            (''event_count'', JInt 21),
            (''time_range'', JStr ''-1h to now''),
            (''results'', JList (replicate 20 (JDict [(''count'', JStr ''7'')])))]"
  let ?none = "[(''query'', JStr ''search index=main''),
            (''event_count'', JInt 0),
            (''message'', JStr ''No results found'')]"
  have h2: "map_of ?d ''error'' = None" by simp
  from envelope_count_invariant[OF many_rows_search h2]
  obtain n where n: "map_of ?d ''event_count'' = Some (JInt (int n))"
    and r: "case map_of ?d ''results'' of
        None \<Rightarrow>
          n = 0 \<and> True
      | Some shown \<Rightarrow> py_len shown = Inr (min n 20)"
    by (auto split: option.splits)
  from n have "n = 21" by simp
  with r have a: "py_len (JList (replicate 20 (JDict [(''count'', JStr ''7'')]))) = Inr (min 21 20)"
    by simp
  have b: "json_loads offline_env many_rows_raw = Inr (JDict [(''results'', JList many_rows)])"
    by (simp add: offline_env_def demo_loads_def many_rows_raw_distinct)
  have c: "py_len (JList many_rows) = Inr 21"
    by (simp add: many_rows_def)
  have k2: "map_of ?none ''error'' = None" by simp
  from envelope_count_invariant[OF no_rows_search k2]
  obtain svc j rs raw results_data where
    f: "splunk_service (server_with (service_of done_job)) = Some svc"
       "jobs_create svc (AStr ''search index=main'') (AStr ''-1h'') (AStr ''now'') = Inr j"
       "results j = Inr rs" "read rs = Inr raw" "json_loads offline_env raw = Inr results_data"
    and z: "py_contains ''results'' results_data = Inr False \<or>
           (\<exists>rows. py_getitem results_data ''results'' = Inr rows \<and> \<not> truthy rows \<and>
              (\<forall>m. py_len rows = Inr m \<longrightarrow> m = 0))"
    by auto
  from f(1,2,3,4) have "raw = ''{\"results\": []}''"
    by (auto simp: server_with_def service_of_def done_job_def empty_stream_def)
  with f(5) z have e: "\<exists>results_data. json_loads offline_env ''{\"results\": []}'' = Inr results_data \<and>
      (py_contains ''results'' results_data = Inr False \<or>
       (\<exists>rows. py_getitem results_data ''results'' = Inr rows \<and> \<not> truthy rows \<and>
          (\<forall>m. py_len rows = Inr m \<longrightarrow> m = 0)))"
    by blast
  from many_rows_search a b c no_rows_search e show ?thesis by (simp only: simp_thms)
qed

section \<open>Where exceptions are converted\<close>

lemma rejected_body:
  "search_body offline_env (server_with rejecting_service)
      (AStr ''search index=main | frobnicate'') (AStr ''-1h'') (AStr ''now'') =
   Some (Inl (BackendError ''HTTP 400 Bad Request -- Unknown search command''),
         \<lparr>splunk_service = Some rejecting_service, connects = 1,
          trace = [EvConnect,
                   EvCreate (AStr ''search index=main | frobnicate'') (AStr ''-1h'') (AStr ''now'')]\<rparr>)"
  by (simp add: run_defs demo_defs)

lemma cancelled_body:
  "search_body cancelling_env (server_with (service_of slow_job))
      (AStr ''search index=main'') (AStr ''-1h'') (AStr ''now'') =
   Some (Inl (CancelledError []),
         \<lparr>splunk_service = Some (service_of slow_job), connects = 1,
          trace = [EvConnect,
                   EvCreate (AStr ''search index=main'') (AStr ''-1h'') (AStr ''now''),
                   EvIsDone, EvSleep (1 / 2), EvIsDone, EvSleep (1 / 2)]\<rparr>)"
  by (simp add: run_defs demo_defs wait_loop.simps)

text \<open>
  C3, as amended. An exception of class \<^verbatim>\<open>Exception\<close> raised in the body of
  \<^verbatim>\<open>search_splunk\<close> (job submission, polling, result fetching, payload
  parsing) is caught by \<^verbatim>\<open>search_splunk\<close> itself and converted there to the
  payload \<^verbatim>\<open>{"error": str(e)}\<close>; \<^verbatim>\<open>search_splunk\<close> returns normally, and
  the dispatcher hands that payload on unchanged, its own \<^verbatim>\<open>except\<close> clause
  (which would answer \<^verbatim>\<open>Error executing <name>: ...\<close>) not being reached. An
  exception outside class \<^verbatim>\<open>Exception\<close> (\<^verbatim>\<open>asyncio.CancelledError\<close> at the
  sleep, \<^verbatim>\<open>KeyboardInterrupt\<close>, \<^verbatim>\<open>SystemExit\<close>) is caught by neither clause:
  it leaves \<^verbatim>\<open>search_splunk\<close> and the dispatcher as it was raised.
\<close>

theorem exceptions_converted_inside_search_splunk:
  assumes "splunk_service st = Some svc"
    and "compiled_query name arguments = Some (q, e, l)"
    and "search_body en st q e l = Some (Inl ex, st')"
  shows "(is_Exception ex \<longrightarrow>
            search_splunk en st q e l =
              Some (Inr (JsonDumps None (JDict [(''error'', JStr (str_exn ex))])), st') \<and>
            tool_result en st name arguments =
              Some (Inr (JsonDumps None (JDict [(''error'', JStr (str_exn ex))])), st') \<and>
            call_tool en st name arguments =
              Some (Inr (JsonDumps None (JDict [(''error'', JStr (str_exn ex))])), st')) \<and>
         (\<not> is_Exception ex \<longrightarrow>
            search_splunk en st q e l = Some (Inl ex, st') \<and>
            tool_result en st name arguments = Some (Inl ex, st') \<and>
            call_tool en st name arguments = Some (Inl ex, st'))"
proof -
  from search_splunk_of_body[OF assms(3)]
  have s: "search_splunk en st q e l =
      Some (if is_Exception ex
            then Inr (JsonDumps None (JDict [(''error'', JStr (str_exn ex))]))
            else Inl ex, st')"
    by (simp add: error_payload_def)
  moreover from assms(2) have "tool_result en st name arguments = search_splunk en st q e l"
    by (simp add: tool_result_compiled)
  moreover from assms(2) have "call_tool en st name arguments = search_splunk en st q e l"
    by (simp add: call_tool_connected[OF assms(1)])
  ultimately show ?thesis by simp
qed

text \<open>
  C3, as stated, fails: the exception that \<^verbatim>\<open>jobs.create\<close> raises in the body
  does not leave \<^verbatim>\<open>search_splunk\<close>, which returns the error payload as an
  ordinary result; and a cancellation during the second sleep of the wait
  loop escapes the dispatcher.
\<close>

theorem exception_propagation_counterexample:
  "search_body offline_env (server_with rejecting_service)
      (AStr ''search index=main | frobnicate'') (AStr ''-1h'') (AStr ''now'') =
   Some (Inl (BackendError ''HTTP 400 Bad Request -- Unknown search command''),
         \<lparr>splunk_service = Some rejecting_service, connects = 1,
          trace = [EvConnect,
                   EvCreate (AStr ''search index=main | frobnicate'') (AStr ''-1h'') (AStr ''now'')]\<rparr>) \<and>
   search_splunk offline_env (server_with rejecting_service)
      (AStr ''search index=main | frobnicate'') (AStr ''-1h'') (AStr ''now'') =
   Some (Inr (JsonDumps None (JDict
           [(''error'', JStr ''HTTP 400 Bad Request -- Unknown search command'')])),
         \<lparr>splunk_service = Some rejecting_service, connects = 1,
          trace = [EvConnect,
                   EvCreate (AStr ''search index=main | frobnicate'') (AStr ''-1h'') (AStr ''now'')]\<rparr>) \<and>
   call_tool cancelling_env (server_with (service_of slow_job)) ''search_splunk''
      (query_only ''search index=main'') =
   Some (Inl (CancelledError []),
         \<lparr>splunk_service = Some (service_of slow_job), connects = 1,
          trace = [EvConnect,
                   EvCreate (AStr ''search index=main'') (AStr ''-1h'') (AStr ''now''),
                   EvIsDone, EvSleep (1 / 2), EvIsDone, EvSleep (1 / 2)]\<rparr>)"
  by (simp add: run_defs demo_defs wait_loop.simps)

text \<open>
  The amended C3 at a backend that rejects the query of a \<^verbatim>\<open>search_splunk\<close>
  call, and at a call cancelled while it waits.
\<close>

theorem exceptions_converted_witness:
  "splunk_service (server_with rejecting_service) = Some rejecting_service \<and>
   compiled_query ''search_splunk'' (query_only ''search index=main | frobnicate'') =
     Some (AStr ''search index=main | frobnicate'', AStr ''-1h'', AStr ''now'') \<and>
   is_Exception (BackendError ''HTTP 400 Bad Request -- Unknown search command'') \<and>
   call_tool offline_env (server_with rejecting_service) ''search_splunk''
       (query_only ''search index=main | frobnicate'') =
     Some (Inr (JsonDumps None (JDict
             [(''error'', JStr ''HTTP 400 Bad Request -- Unknown search command'')])),
           \<lparr>splunk_service = Some rejecting_service, connects = 1,
            trace = [EvConnect,
                     EvCreate (AStr ''search index=main | frobnicate'') (AStr ''-1h'') (AStr ''now'')]\<rparr>) \<and>
   splunk_service (server_with (service_of slow_job)) = Some (service_of slow_job) \<and>
   compiled_query ''search_splunk'' (query_only ''search index=main'') =
     Some (AStr ''search index=main'', AStr ''-1h'', AStr ''now'') \<and>
   \<not> is_Exception (CancelledError []) \<and>
   call_tool cancelling_env (server_with (service_of slow_job)) ''search_splunk''
       (query_only ''search index=main'') =
     Some (Inl (CancelledError []),
           \<lparr>splunk_service = Some (service_of slow_job), connects = 1,
            trace = [EvConnect,
                     EvCreate (AStr ''search index=main'') (AStr ''-1h'') (AStr ''now''),
                     EvIsDone, EvSleep (1 / 2), EvIsDone, EvSleep (1 / 2)]\<rparr>)"
proof -
  have h1: "splunk_service (server_with rejecting_service) = Some rejecting_service"
    by (simp add: server_with_def)
  have h2: "compiled_query ''search_splunk'' (query_only ''search index=main | frobnicate'') =
     Some (AStr ''search index=main | frobnicate'', AStr ''-1h'', AStr ''now'')"
    by (simp add: compiled_query_def query_only_def dict_get_def)
  have k1: "splunk_service (server_with (service_of slow_job)) = Some (service_of slow_job)"
    by (simp add: server_with_def)
  have k2: "compiled_query ''search_splunk'' (query_only ''search index=main'') =
     Some (AStr ''search index=main'', AStr ''-1h'', AStr ''now'')"
    by (simp add: compiled_query_def query_only_def dict_get_def)
  from exceptions_converted_inside_search_splunk[OF h1 h2 rejected_body]
    exceptions_converted_inside_search_splunk[OF k1 k2 cancelled_body] h1 h2 k1 k2
  show ?thesis by simp
qed

section \<open>The metrics query\<close>

lemma metrics_queries_distinct:
  "severity_count_query \<noteq> threat_trends_query"
  "severity_count_query \<noteq> sourcetype_count_query"
  "threat_trends_query \<noteq> sourcetype_count_query"
  by (simp_all add: severity_count_query_def threat_trends_query_def sourcetype_count_query_def)

lemma severity_count_query_stage:
  "is_substring ''| stats count by severity'' severity_count_query"
  by (simp add: severity_count_query_def)

lemma threat_trends_query_stage:
  "is_substring ''| timechart span=1h count by category'' threat_trends_query"
  by (simp add: threat_trends_query_def)

lemma sourcetype_count_query_stage:
  "is_substring ''| stats count by sourcetype'' sourcetype_count_query"
  by (simp add: sourcetype_count_query_def)

text \<open>
  C4, as amended. \<^verbatim>\<open>get_security_metrics\<close> selects the severity-count
  aggregation for \<^verbatim>\<open>"alerts"\<close> and also for \<^verbatim>\<open>"all"\<close> (which is the default
  of an absent \<^verbatim>\<open>metric_type\<close>), the count-by-category trend in 1-hour buckets
  for \<^verbatim>\<open>"threat_trends"\<close>, and the source-type count for every other value;
  the three queries are different texts.
\<close>

theorem security_metrics_query_selection:
  "get_security_metrics_query (AStr ''alerts'') = severity_count_query \<and>
   get_security_metrics_query (AStr ''all'') = severity_count_query \<and>
   get_security_metrics_query (AStr ''threat_trends'') = threat_trends_query \<and>
   (metric_type \<notin> {AStr ''alerts'', AStr ''all'', AStr ''threat_trends''} \<longrightarrow>
      get_security_metrics_query metric_type = sourcetype_count_query) \<and>
   is_substring ''| stats count by severity'' severity_count_query \<and>
   is_substring ''| timechart span=1h count by category'' threat_trends_query \<and>
   is_substring ''| stats count by sourcetype'' sourcetype_count_query \<and>
   distinct [severity_count_query, threat_trends_query, sourcetype_count_query] \<and>
   compiled_query ''get_security_metrics'' arguments =
     Some (AStr (get_security_metrics_query (dict_get arguments ''metric_type'' (AStr ''all''))),
           dict_get arguments ''time_range'' (AStr ''-24h''), AStr ''now'')"
proof -
  have "get_security_metrics_query (AStr ''alerts'') = severity_count_query"
    "get_security_metrics_query (AStr ''all'') = severity_count_query"
    "get_security_metrics_query (AStr ''threat_trends'') = threat_trends_query"
    by (simp_all add: get_security_metrics_query_def)
  moreover have "metric_type \<notin> {AStr ''alerts'', AStr ''all'', AStr ''threat_trends''} \<longrightarrow>
      get_security_metrics_query metric_type = sourcetype_count_query"
    by (simp add: get_security_metrics_query_def)
  moreover have "distinct [severity_count_query, threat_trends_query, sourcetype_count_query]"
    using metrics_queries_distinct by simp
  moreover have "compiled_query ''get_security_metrics'' arguments =
     Some (AStr (get_security_metrics_query (dict_get arguments ''metric_type'' (AStr ''all''))),
           dict_get arguments ''time_range'' (AStr ''-24h''), AStr ''now'')"
    by (simp add: compiled_query_def)
  ultimately show ?thesis
    using severity_count_query_stage threat_trends_query_stage sourcetype_count_query_stage
    by blast
qed

text \<open>
  C4, as stated, fails: \<^verbatim>\<open>"all"\<close> selects the severity-count aggregation,
  not the query an unrecognised value such as \<^verbatim>\<open>"incidents"\<close> selects.
\<close>

theorem security_metrics_all_counterexample:
  "get_security_metrics_query (AStr ''all'') = severity_count_query \<and>
   get_security_metrics_query (AStr ''incidents'') = sourcetype_count_query \<and>
   get_security_metrics_query (AStr ''all'') \<noteq> get_security_metrics_query (AStr ''incidents'')"
  using metrics_queries_distinct(2) by (simp add: get_security_metrics_query_def)

text \<open>The amended C4 at \<^verbatim>\<open>"incidents"\<close>, and at a call without \<^verbatim>\<open>metric_type\<close>.\<close>

theorem security_metrics_query_witness:
  "AStr ''incidents'' \<notin> {AStr ''alerts'', AStr ''all'', AStr ''threat_trends''} \<and>
   get_security_metrics_query (AStr ''incidents'') = sourcetype_count_query \<and>
   compiled_query ''get_security_metrics'' no_arguments =
     Some (AStr severity_count_query, AStr ''-24h'', AStr ''now'')"
proof -
  have h: "AStr ''incidents'' \<notin> {AStr ''alerts'', AStr ''all'', AStr ''threat_trends''}"
    by simp
  from security_metrics_query_selection[of "AStr ''incidents''" no_arguments] h
  show ?thesis by (simp add: dict_get_def)
qed

section \<open>The threat-intelligence query\<close>

text \<open>
  C6. \<^verbatim>\<open>ioc_type\<close> has no influence: any two values give the same query text
  and the same outcome of \<^verbatim>\<open>get_threat_intel\<close> for a fixed time range, and
  two calls of the tool whose arguments differ only in \<^verbatim>\<open>ioc_type\<close> (present
  with any value, or absent) compile the same query and time window and have
  the same outcome, the submitted job included.
\<close>

theorem ioc_type_noninterference:
  "get_threat_intel_query ioc1 = get_threat_intel_query ioc2 \<and>
   get_threat_intel en st ioc1 time_range = get_threat_intel en st ioc2 time_range \<and>
   compiled_query ''get_threat_intel'' (arguments(''ioc_type'' := v1)) =
     compiled_query ''get_threat_intel'' (arguments(''ioc_type'' := v2)) \<and>
   call_tool en st ''get_threat_intel'' (arguments(''ioc_type'' := v1)) =
     call_tool en st ''get_threat_intel'' (arguments(''ioc_type'' := v2))"
proof -
  have q: "get_threat_intel_query ioc1 = get_threat_intel_query ioc2"
    by (simp add: get_threat_intel_query_def)
  then have "get_threat_intel en st ioc1 time_range = get_threat_intel en st ioc2 time_range"
    by (simp add: get_threat_intel_def)
  moreover have c: "compiled_query ''get_threat_intel'' (arguments(''ioc_type'' := v1)) =
     compiled_query ''get_threat_intel'' (arguments(''ioc_type'' := v2))"
    by (simp add: compiled_query_def dict_get_def get_threat_intel_query_def)
  moreover from c have "call_tool en st ''get_threat_intel'' (arguments(''ioc_type'' := v1)) =
     call_tool en st ''get_threat_intel'' (arguments(''ioc_type'' := v2))"
    by (rule call_tool_cong_compiled)
  ultimately show ?thesis using q by blast
qed

section \<open>Waiting for the job\<close>








section \<open>Unknown tool names\<close>

text \<open>
  C7, as amended. The dispatcher checks the connection before it looks at the
  name. For a name outside the registry: on a server with a session the
  answer is the text \<^verbatim>\<open>Unknown tool: <name>\<close>, returned (never raised) with
  the server and its trace unchanged; on a server without a session a
  connection attempt comes first, and the answer is that text when the
  attempt succeeds and the connectivity error when it fails (the exception of
  a failed attempt is raised on instead when it is outside class
  \<^verbatim>\<open>Exception\<close>). No job is submitted in any case.
\<close>

theorem unknown_tool_is_answered_locally:
  assumes "name \<notin> set tool_names"
  shows "call_tool en st name arguments =
     (case splunk_service st of
        Some svc \<Rightarrow> Some (Inr (Plain (''Unknown tool: '' @ name)), st)
      | None \<Rightarrow>
          (case client_connect en (connects st) of
             Inl ex \<Rightarrow>
               Some (if is_Exception ex
                     then Inr (Plain ''Error: Failed to connect to Splunk. Check connection settings.'')
                     else Inl ex,
                     st\<lparr>connects := Suc (connects st), trace := trace st @ [EvConnect]\<rparr>)
           | Inr svc \<Rightarrow>
               Some (Inr (Plain (''Unknown tool: '' @ name)),
                     st\<lparr>connects := Suc (connects st), trace := trace st @ [EvConnect],
                        splunk_service := Some svc\<rparr>)))"
proof -
  from assms compiled_query_registered[of name arguments]
  have c: "compiled_query name arguments = None"
    by blast
  then have t: "\<And>s. call_tool_try en s name arguments =
      Some (Inr (Plain (''Unknown tool: '' @ name)), s)"
    by (simp add: call_tool_try_is_tool_result tool_result_compiled)
  show ?thesis
    by (simp add: call_tool_def connect_to_splunk_def connect_failed_text_def t
        split: option.splits sum.splits)
qed

text \<open>
  C7, as stated, fails: on a server without a session whose connection
  attempt fails, an unknown name is answered with the connectivity error,
  after an interaction with the backend.
\<close>

theorem unknown_tool_counterexample:
  "call_tool offline_env offline_server ''no_such_tool'' no_arguments =
     Some (Inr (Plain ''Error: Failed to connect to Splunk. Check connection settings.''),
           \<lparr>splunk_service = None, connects = 2, trace = [EvConnect, EvConnect]\<rparr>)"
  by (simp add: run_defs demo_defs)

text \<open>The amended C7 at the name \<^verbatim>\<open>no_such_tool\<close> on a connected server.\<close>

theorem unknown_tool_witness:
  "''no_such_tool'' \<notin> set tool_names \<and>
   call_tool offline_env (server_with (service_of done_job)) ''no_such_tool'' no_arguments =
     Some (Inr (Plain ''Unknown tool: no_such_tool''), server_with (service_of done_job))"
proof -
  have h: "''no_such_tool'' \<notin> set tool_names"
    by (simp add: tool_names_def list_tools_def)
  from unknown_tool_is_answered_locally[OF h, of offline_env "server_with (service_of done_job)" no_arguments]
  have "call_tool offline_env (server_with (service_of done_job)) ''no_such_tool'' no_arguments =
     Some (Inr (Plain ''Unknown tool: no_such_tool''), server_with (service_of done_job))"
    by (simp add: server_with_def)
  with h show ?thesis by blast
qed

section \<open>No results\<close>

text \<open>
  C8. When the job finishes (the wait for it was not interrupted) and the
  payload parsed from its result stream is an object that has no
  \<^verbatim>\<open>results\<close> key, or has zero results under it (an empty list; any falsy
  value does the same), \<^verbatim>\<open>search_splunk\<close> returns the envelope with the
  echoed query, \<^verbatim>\<open>event_count\<close> 0 and the message \<^verbatim>\<open>No results found\<close>.
\<close>

theorem no_results_envelope_returned:
  assumes "splunk_service st = Some svc" and "jobs_create svc q e l = Inr j"
    and "is_done j n = Inr True" and "waits en j n"
    and "results j = Inr rs" and "read rs = Inr raw" and "json_loads en raw = Inr (JDict d)"
    and "map_of d ''results'' = None \<or> (\<exists>v. map_of d ''results'' = Some v \<and> \<not> truthy v)"
  shows "search_splunk en st q e l =
     Some (Inr (JsonDumps None (JDict [(''query'', json_of_arg q),
                                  (''event_count'', JInt 0),
                                  (''message'', JStr ''No results found'')])),
           st\<lparr>trace := trace st @ [EvCreate q e l] @ polls n @ [EvIsDone, EvResults, EvRead]\<rparr>)"
proof -
  let ?tr = "trace st @ [EvCreate q e l] @ polls n @ [EvIsDone]"
  have f: "fetch_results en j ?tr = (Inr (JDict d), ?tr @ [EvResults, EvRead])"
    using assms(5,6,7) by (simp add: fetch_results_def)
  have m: "format_results q e l (JDict d) =
      Inr (JsonDumps None (JDict [(''query'', json_of_arg q),
                             (''event_count'', JInt 0),
                             (''message'', JStr ''No results found'')]))"
    using assms(8) by (auto simp: format_results_def no_results_envelope_def)
  from search_body_done[OF assms(1,2,4,3) f] m
  have "search_body en st q e l =
      Some (Inr (JsonDumps None (JDict [(''query'', json_of_arg q),
                             (''event_count'', JInt 0),
                             (''message'', JStr ''No results found'')])),
            st\<lparr>trace := ?tr @ [EvResults, EvRead]\<rparr>)"
    by simp
  from search_splunk_of_body[OF this] show ?thesis by simp
qed

text \<open>
  C8 at the scenario of the specification: \<^verbatim>\<open>detect_data_exfiltration\<close> with
  \<^verbatim>\<open>threshold_mb=50\<close> against a backend that returns no matching group, the
  job being done at its third poll.
\<close>

theorem no_results_envelope_witness:
  "splunk_service (server_with (service_of slow_job)) = Some (service_of slow_job) \<and>
   is_done slow_job 2 = Inr True \<and> waits offline_env slow_job 2 \<and>
   results slow_job = Inr empty_stream \<and>
   json_loads offline_env ''{\"results\": []}'' = Inr (JDict [(''results'', JList [])]) \<and>
   detect_data_exfiltration offline_env (server_with (service_of slow_job)) (AInt 50) (AStr ''-1h'') =
     Some (Inr (JsonDumps None (JDict [(''query'', JStr (detect_data_exfiltration_query (AInt 50))),
                                  (''event_count'', JInt 0),
                                  (''message'', JStr ''No results found'')])),
           \<lparr>splunk_service = Some (service_of slow_job), connects = 1,
            trace = [EvConnect,
                     EvCreate (AStr (detect_data_exfiltration_query (AInt 50))) (AStr ''-1h'') (AStr ''now''),
                     EvIsDone, EvSleep (1 / 2), EvIsDone, EvSleep (1 / 2),
                     EvIsDone, EvResults, EvRead]\<rparr>)"
proof -
  let ?q = "AStr (detect_data_exfiltration_query (AInt 50))"
  have h1: "splunk_service (server_with (service_of slow_job)) = Some (service_of slow_job)"
    by (simp add: server_with_def)
  have h2: "jobs_create (service_of slow_job) ?q (AStr ''-1h'') (AStr ''now'') = Inr slow_job"
    by (simp add: service_of_def)
  have h3: "is_done slow_job 2 = Inr True" by (simp add: slow_job_def)
  have h4: "waits offline_env slow_job 2"
    by (simp add: waits_def step_waits_def slow_job_def offline_env_def)
  have h5: "results slow_job = Inr empty_stream" by (simp add: slow_job_def)
  have h6: "read empty_stream = Inr ''{\"results\": []}''" by (simp add: empty_stream_def)
  have h7: "json_loads offline_env ''{\"results\": []}'' = Inr (JDict [(''results'', JList [])])"
    by (simp add: offline_env_def demo_loads_def)
  have h8: "map_of [(''results'', JList [])] ''results'' = None \<or>
      (\<exists>v. map_of [(''results'', JList [])] ''results'' = Some v \<and> \<not> truthy v)"
    by simp
  from no_results_envelope_returned[OF h1 h2 h3 h4 h5 h6 h7 h8]
  have "detect_data_exfiltration offline_env (server_with (service_of slow_job)) (AInt 50) (AStr ''-1h'') =
     Some (Inr (JsonDumps None (JDict [(''query'', JStr (detect_data_exfiltration_query (AInt 50))),
                                  (''event_count'', JInt 0),
                                  (''message'', JStr ''No results found'')])),
           \<lparr>splunk_service = Some (service_of slow_job), connects = 1,
            trace = [EvConnect,
                     EvCreate (AStr (detect_data_exfiltration_query (AInt 50))) (AStr ''-1h'') (AStr ''now''),
                     EvIsDone, EvSleep (1 / 2), EvIsDone, EvSleep (1 / 2),
                     EvIsDone, EvResults, EvRead]\<rparr>)"
    by (simp add: detect_data_exfiltration_def server_with_def polls_def eval_nat_numeral)
  with h1 h3 h4 h5 h7 show ?thesis by (simp only: simp_thms)
qed

section \<open>Connection failure\<close>

text \<open>
  C9, as amended. On a server without a session, as long as every connection
  attempt fails with an exception of class \<^verbatim>\<open>Exception\<close>, each tool call of
  a run returns the same connectivity error, which is the plain text
  \<^verbatim>\<open>Error: Failed to connect to Splunk. Check connection settings.\<close> and
  not a payload \<^verbatim>\<open>{"error": ...}\<close>: \<^verbatim>\<open>connect_to_splunk\<close> reports the
  failure by returning \<^verbatim>\<open>False\<close>, not by raising, each call returns, the
  session stays absent, and the trace grows by one connection attempt per
  call and nothing else, so no query is compiled into a job or submitted. A
  call whose attempt succeeds goes on as a call on the connected server; a
  call whose attempt raises an exception outside class \<^verbatim>\<open>Exception\<close> raises
  it.
\<close>

theorem connection_failure_is_persistent:
  assumes "splunk_service st = None"
    and "\<forall>k. connects st \<le> k \<and> k < connects st + length calls \<longrightarrow>
           (\<exists>ex. client_connect en k = Inl ex \<and> is_Exception ex)"
  shows "run_calls en st calls =
     Some (Inr (replicate (length calls)
                  (Plain ''Error: Failed to connect to Splunk. Check connection settings.'')),
           st\<lparr>connects := connects st + length calls,
              trace := trace st @ replicate (length calls) EvConnect\<rparr>) \<and>
     (\<forall>ex. Plain ''Error: Failed to connect to Splunk. Check connection settings.'' \<noteq>
           error_payload ex) \<and>
     (\<forall>svc name arguments. client_connect en (connects st) = Inr svc \<longrightarrow>
        call_tool en st name arguments =
        call_tool en (st\<lparr>connects := Suc (connects st), trace := trace st @ [EvConnect],
                        splunk_service := Some svc\<rparr>) name arguments) \<and>
     (\<forall>ex name arguments. client_connect en (connects st) = Inl ex \<and> \<not> is_Exception ex \<longrightarrow>
        call_tool en st name arguments =
        Some (Inl ex, st\<lparr>connects := Suc (connects st), trace := trace st @ [EvConnect]\<rparr>))"
proof -
  have "run_calls en st calls =
     Some (Inr (replicate (length calls) connect_failed_text),
           st\<lparr>connects := connects st + length calls,
              trace := trace st @ replicate (length calls) EvConnect\<rparr>)"
    using assms
  proof (induction calls arbitrary: st)
    case Nil
    then show ?case by simp
  next
    case (Cons c calls)
    obtain name arguments where c: "c = (name, arguments)" by (cases c)
    let ?st1 = "st\<lparr>connects := Suc (connects st), trace := trace st @ [EvConnect]\<rparr>"
    from Cons.prems(2) obtain ex where ex: "client_connect en (connects st) = Inl ex"
      "is_Exception ex"
      by force
    from call_tool_connect_fails[OF Cons.prems(1) ex]
    have t: "call_tool en st name arguments = Some (Inr connect_failed_text, ?st1)" .
    have s1: "splunk_service ?st1 = None" using Cons.prems(1) by simp
    have f1: "\<forall>k. connects ?st1 \<le> k \<and> k < connects ?st1 + length calls \<longrightarrow>
             (\<exists>ex. client_connect en k = Inl ex \<and> is_Exception ex)"
      using Cons.prems(2) by simp
    from Cons.IH[OF s1 f1]
    have "run_calls en ?st1 calls =
       Some (Inr (replicate (length calls) connect_failed_text),
             ?st1\<lparr>connects := connects ?st1 + length calls,
                trace := trace ?st1 @ replicate (length calls) EvConnect\<rparr>)" .
    with t c show ?case
      by (simp add: replicate_app_Cons_same)
  qed
  with call_tool_connect_succeeds[OF assms(1)] call_tool_connect_raises[OF assms(1)]
  show ?thesis
    by (simp add: connect_failed_text_def error_payload_def)
qed

text \<open>
  C9, as stated, fails: the answer to a call on a server that cannot connect
  is that plain text, not the error payload of the connection failure.
\<close>

theorem connection_failure_counterexample:
  "call_tool offline_env offline_server ''search_splunk'' (query_only ''search index=main'') =
     Some (Inr (Plain ''Error: Failed to connect to Splunk. Check connection settings.''),
           \<lparr>splunk_service = None, connects = 2, trace = [EvConnect, EvConnect]\<rparr>) \<and>
   client_connect offline_env 1 = Inl (BackendError ''[Errno 111] Connection refused'') \<and>
   Plain ''Error: Failed to connect to Splunk. Check connection settings.'' \<noteq>
     error_payload (BackendError ''[Errno 111] Connection refused'')"
  by (simp add: run_defs demo_defs)

text \<open>
  The amended C9 at three calls (a search, a threat-intel lookup, an unknown
  name) after a failed connection at startup, with a backend that refuses
  every connection.
\<close>

theorem connection_failure_witness:
  "splunk_service offline_server = None \<and>
   (\<forall>k. \<exists>ex. client_connect offline_env k = Inl ex \<and> is_Exception ex) \<and>
   run_calls offline_env offline_server
     [(''search_splunk'', query_only ''search index=main''),
      (''get_threat_intel'', no_arguments),
      (''no_such_tool'', no_arguments)] =
   Some (Inr [Plain ''Error: Failed to connect to Splunk. Check connection settings.'',
              Plain ''Error: Failed to connect to Splunk. Check connection settings.'',
              Plain ''Error: Failed to connect to Splunk. Check connection settings.''],
         \<lparr>splunk_service = None, connects = 4,
          trace = [EvConnect, EvConnect, EvConnect, EvConnect]\<rparr>)"
proof -
  let ?calls = "[(''search_splunk'', query_only ''search index=main''),
      (''get_threat_intel'', no_arguments),
      (''no_such_tool'', no_arguments)]"
  have h1: "splunk_service offline_server = None" by (simp add: offline_server_def)
  have a: "\<forall>k. \<exists>ex. client_connect offline_env k = Inl ex \<and> is_Exception ex"
    by (simp add: offline_env_def)
  then have h2: "\<forall>k. connects offline_server \<le> k \<and> k < connects offline_server + length ?calls \<longrightarrow>
           (\<exists>ex. client_connect offline_env k = Inl ex \<and> is_Exception ex)"
    by blast
  from connection_failure_is_persistent[OF h1 h2]
  have "run_calls offline_env offline_server ?calls =
     Some (Inr (replicate (length ?calls)
             (Plain ''Error: Failed to connect to Splunk. Check connection settings.'')),
           offline_server\<lparr>connects := connects offline_server + length ?calls,
              trace := trace offline_server @ replicate (length ?calls) EvConnect\<rparr>)"
    by blast
  then have "run_calls offline_env offline_server ?calls =
   Some (Inr [Plain ''Error: Failed to connect to Splunk. Check connection settings.'',
              Plain ''Error: Failed to connect to Splunk. Check connection settings.'',
              Plain ''Error: Failed to connect to Splunk. Check connection settings.''],
         \<lparr>splunk_service = None, connects = 4,
          trace = [EvConnect, EvConnect, EvConnect, EvConnect]\<rparr>)"
    by (simp add: offline_server_def eval_nat_numeral)
  with h1 a show ?thesis by (simp only: simp_thms)
qed

section \<open>What \<^verbatim>\<open>search_splunk\<close> catches\<close>

text \<open>
  C10, as amended. \<^verbatim>\<open>search_splunk\<close> catches every exception of class
  \<^verbatim>\<open>Exception\<close> raised in its body (job creation, polling, result fetching,
  JSON parsing, formatting) and returns it as the string
  \<^verbatim>\<open>{"error": str(e)}\<close>; it raises to its caller exactly the exceptions of
  its body that are outside class \<^verbatim>\<open>Exception\<close> (\<^verbatim>\<open>asyncio.CancelledError\<close>
  at the sleep, \<^verbatim>\<open>KeyboardInterrupt\<close>, \<^verbatim>\<open>SystemExit\<close>). It returns or raises
  for every query, time window and backend behaviour but one: it does
  neither exactly when the job was created, every poll reports it unfinished
  and every sleep returns.
\<close>

theorem search_splunk_catches_class_Exception_only:
  "(search_splunk en st q e l = None \<longleftrightarrow>
      (\<exists>svc j. splunk_service st = Some svc \<and> jobs_create svc q e l = Inr j \<and>
         (\<forall>i. step_waits en j i))) \<and>
   (\<forall>ex st'. search_splunk en st q e l = Some (Inl ex, st') \<longleftrightarrow>
      search_body en st q e l = Some (Inl ex, st') \<and> \<not> is_Exception ex) \<and>
   (\<forall>ex st'. search_body en st q e l = Some (Inl ex, st') \<and> is_Exception ex \<longrightarrow>
      search_splunk en st q e l =
        Some (Inr (JsonDumps None (JDict [(''error'', JStr (str_exn ex))])), st'))"
proof (intro conjI allI impI)
  show "search_splunk en st q e l = None \<longleftrightarrow>
      (\<exists>svc j. splunk_service st = Some svc \<and> jobs_create svc q e l = Inr j \<and>
         (\<forall>i. step_waits en j i))"
    by (simp only: search_splunk_None_iff search_body_None_iff)
next
  fix ex st'
  show "search_splunk en st q e l = Some (Inl ex, st') \<longleftrightarrow>
      search_body en st q e l = Some (Inl ex, st') \<and> \<not> is_Exception ex"
    by (rule search_splunk_raises_iff)
next
  fix ex st'
  assume "search_body en st q e l = Some (Inl ex, st') \<and> is_Exception ex"
  then have b: "search_body en st q e l = Some (Inl ex, st')" and x: "is_Exception ex"
    by simp_all
  from search_splunk_of_body[OF b] x
  show "search_splunk en st q e l =
        Some (Inr (JsonDumps None (JDict [(''error'', JStr (str_exn ex))])), st')"
    by (simp add: error_payload_def)
qed

text \<open>
  C10, as stated, fails: against a job that is never done \<^verbatim>\<open>search_splunk\<close>
  returns nothing, and a cancellation during its second sleep is raised to
  its caller.
\<close>

theorem search_splunk_total_counterexample:
  "search_splunk offline_env (server_with (service_of stuck_job))
      (AStr ''search index=main'') (AStr ''-1h'') (AStr ''now'') = None \<and>
   search_splunk cancelling_env (server_with (service_of slow_job))
      (AStr ''search index=main'') (AStr ''-1h'') (AStr ''now'') =
   Some (Inl (CancelledError []),
         \<lparr>splunk_service = Some (service_of slow_job), connects = 1,
          trace = [EvConnect,
                   EvCreate (AStr ''search index=main'') (AStr ''-1h'') (AStr ''now''),
                   EvIsDone, EvSleep (1 / 2), EvIsDone, EvSleep (1 / 2)]\<rparr>)"
proof -
  have "\<forall>i. step_waits offline_env stuck_job i"
    by (simp add: step_waits_def stuck_job_def offline_env_def)
  then have "search_body offline_env (server_with (service_of stuck_job))
      (AStr ''search index=main'') (AStr ''-1h'') (AStr ''now'') = None"
    by (intro search_body_never_done[where svc = "service_of stuck_job" and j = stuck_job])
       (simp_all add: server_with_def service_of_def)
  then have "search_splunk offline_env (server_with (service_of stuck_job))
      (AStr ''search index=main'') (AStr ''-1h'') (AStr ''now'') = None"
    by (simp add: search_splunk_None_iff)
  moreover from cancelled_body have "search_splunk cancelling_env (server_with (service_of slow_job))
      (AStr ''search index=main'') (AStr ''-1h'') (AStr ''now'') =
   Some (Inl (CancelledError []),
         \<lparr>splunk_service = Some (service_of slow_job), connects = 1,
          trace = [EvConnect,
                   EvCreate (AStr ''search index=main'') (AStr ''-1h'') (AStr ''now''),
                   EvIsDone, EvSleep (1 / 2), EvIsDone, EvSleep (1 / 2)]\<rparr>)"
    by (simp add: search_splunk_def)
  ultimately show ?thesis by blast
qed

text \<open>
  The amended C10 at a backend that rejects the query (the exception comes
  back as an error payload) and at a call cancelled while it waits (the
  exception is raised).
\<close>

theorem search_splunk_catches_witness:
  "is_Exception (BackendError ''HTTP 400 Bad Request -- Unknown search command'') \<and>
   search_splunk offline_env (server_with rejecting_service)
      (AStr ''search index=main | frobnicate'') (AStr ''-1h'') (AStr ''now'') =
   Some (Inr (JsonDumps None (JDict
           [(''error'', JStr ''HTTP 400 Bad Request -- Unknown search command'')])),
         \<lparr>splunk_service = Some rejecting_service, connects = 1,
          trace = [EvConnect,
                   EvCreate (AStr ''search index=main | frobnicate'') (AStr ''-1h'') (AStr ''now'')]\<rparr>) \<and>
   \<not> is_Exception (CancelledError []) \<and>
   search_splunk cancelling_env (server_with (service_of slow_job))
      (AStr ''search index=main'') (AStr ''-1h'') (AStr ''now'') =
   Some (Inl (CancelledError []),
         \<lparr>splunk_service = Some (service_of slow_job), connects = 1,
          trace = [EvConnect,
                   EvCreate (AStr ''search index=main'') (AStr ''-1h'') (AStr ''now''),
                   EvIsDone, EvSleep (1 / 2), EvIsDone, EvSleep (1 / 2)]\<rparr>) \<and>
   \<not> (\<exists>svc j. splunk_service (server_with rejecting_service) = Some svc \<and>
         jobs_create svc (AStr ''search index=main | frobnicate'') (AStr ''-1h'') (AStr ''now'') = Inr j \<and>
         (\<forall>i. step_waits offline_env j i)) \<and>
   search_splunk offline_env (server_with rejecting_service)
      (AStr ''search index=main | frobnicate'') (AStr ''-1h'') (AStr ''now'') \<noteq> None"
proof -
  note t1 = search_splunk_catches_class_Exception_only[of offline_env "server_with rejecting_service"
      "AStr ''search index=main | frobnicate''" "AStr ''-1h''" "AStr ''now''"]
  note t2 = search_splunk_catches_class_Exception_only[of cancelling_env "server_with (service_of slow_job)"
      "AStr ''search index=main''" "AStr ''-1h''" "AStr ''now''"]
  have x1: "is_Exception (BackendError ''HTTP 400 Bad Request -- Unknown search command'')"
    by simp
  have x2: "\<not> is_Exception (CancelledError [])" by simp
  from t1 rejected_body x1 have a: "search_splunk offline_env (server_with rejecting_service)
      (AStr ''search index=main | frobnicate'') (AStr ''-1h'') (AStr ''now'') =
   Some (Inr (JsonDumps None (JDict
           [(''error'', JStr ''HTTP 400 Bad Request -- Unknown search command'')])),
         \<lparr>splunk_service = Some rejecting_service, connects = 1,
          trace = [EvConnect,
                   EvCreate (AStr ''search index=main | frobnicate'') (AStr ''-1h'') (AStr ''now'')]\<rparr>)"
    by simp
  from t2 cancelled_body x2 have b: "search_splunk cancelling_env (server_with (service_of slow_job))
      (AStr ''search index=main'') (AStr ''-1h'') (AStr ''now'') =
   Some (Inl (CancelledError []),
         \<lparr>splunk_service = Some (service_of slow_job), connects = 1,
          trace = [EvConnect,
                   EvCreate (AStr ''search index=main'') (AStr ''-1h'') (AStr ''now''),
                   EvIsDone, EvSleep (1 / 2), EvIsDone, EvSleep (1 / 2)]\<rparr>)"
    by blast
  have n: "\<not> (\<exists>svc j. splunk_service (server_with rejecting_service) = Some svc \<and>
         jobs_create svc (AStr ''search index=main | frobnicate'') (AStr ''-1h'') (AStr ''now'') = Inr j \<and>
         (\<forall>i. step_waits offline_env j i))"
    by (simp add: server_with_def rejecting_service_def)
  with t1 have r: "search_splunk offline_env (server_with rejecting_service)
      (AStr ''search index=main | frobnicate'') (AStr ''-1h'') (AStr ''now'') \<noteq> None"
    by blast
  from x1 a x2 b n r show ?thesis by (simp only: simp_thms)
qed

end
